theory Spec2Isabelle
  imports Complex_Main "HOL-Library.AList"
begin

section \<open>The Turn Engine (pkg/game)\<close>

text \<open>
  A shallow embedding of the trail game's turn engine (\<^verbatim>\<open>GameState\<close> and its methods)
  and of the room logic of \<^verbatim>\<open>cmd/server/main.go\<close>.

  Conventions of the embedding.
  \<^item> A \<^verbatim>\<open>float64\<close> field is a \<open>real\<close>: sums, products and comparisons are exact, and
    rounding, infinities and NaN are outside the model.
  \<^item> A \<^verbatim>\<open>*Player\<close> is an index into \<open>Heap\<close>, the list of all Player objects ever
    allocated by \<^verbatim>\<open>AddPlayer\<close>; the roster \<open>Players\<close> is a list of such pointers, so that
    removing a player from the roster leaves the other pointers valid. A nil pointer is
    \<open>None\<close> at the entry points that test for it.
  \<^item> \<^verbatim>\<open>g.Rand\<close> is an injected source of raw draws \<open>Rand\<close> read at position
    \<open>RandPos\<close>; every call of \<^verbatim>\<open>Float64\<close> or \<^verbatim>\<open>Intn\<close> consumes one raw draw.
    \<^verbatim>\<open>Float64\<close> returns a multiple of \<open>2^-53\<close> in \<open>[0,1)\<close> and \<^verbatim>\<open>Intn n\<close> a
    number below \<open>n\<close>, as the library does.
  \<^item> The narrative text a method returns is not modelled, except for the replies that
    reject a request; these are constructors of \<open>reply\<close>, with the numbers the text
    formats.
  \<^item> \<^verbatim>\<open>FinalDate\<close> is kept as the number of days after 29 March 1847 from which the
    arrival date is printed.
\<close>

datatype PlayerType = PlayerTypeHuman | PlayerTypeCPU

record PartyMember =
  m_Name :: string
  m_Alive :: bool
  m_Health :: int
  m_Injured :: bool

record Player =
  p_ID :: string
  p_Name :: string
  p_Type :: PlayerType
  p_Party :: "PartyMember list"
  p_Connected :: bool
  p_ShootingRank :: int
  p_Alive :: bool

datatype TurnPhase =
  PhaseStart | PhaseMainMenu | PhaseFort | PhaseHunting | PhaseEating | PhaseRiders
  | PhaseEvents | PhaseMountains | PhaseFinalTurn | PhaseGameOver | PhaseShooting
  | PhaseIllness | PhaseRiverCrossing

record LootSite =
  ls_ID :: string
  ls_Mileage :: real
  ls_PlayerName :: string
  ls_Food :: real
  ls_Bullets :: real
  ls_Clothing :: real
  ls_MiscSupplies :: real
  ls_Cash :: real
  ls_OxenCost :: real
  ls_DateCreated :: int
  ls_IsLooted :: bool
  ls_LootedBy :: string
  ls_LootedAt :: int

record GameState =
  Heap :: "Player list"
  Players :: "nat list"
  CurrentPlayerIdx :: nat
  TurnNumber :: int
  Week :: int
  Day :: int
  Mileage :: real
  Food :: real
  Bullets :: real
  Clothing :: real
  MiscSupplies :: real
  Cash :: real
  OxenCost :: real
  DistanceTraveled :: int
  TurnPhase :: TurnPhase
  EventLog :: "string list"
  GameOver :: bool
  Win :: bool
  FinalDate :: "int option"
  Rand :: "nat \<Rightarrow> nat"
  RandPos :: nat
  PendingRiderHostile :: bool
  PendingEatingLevel :: int
  PendingRiderCount :: int
  HuntWord :: string
  FortAvailable :: bool
  LootSites :: "LootSite list"

definition TrailLength :: real where
  "TrailLength = 4500"

definition MountainThreshold :: real where
  "MountainThreshold = 2500"

definition shootingWords :: "string list" where
  "shootingWords = [''BANG'', ''BLAM'', ''POW'', ''WHAM'']"

subsection \<open>The random source\<close>

definition Float64 :: "GameState \<Rightarrow> real \<times> GameState" where
  "Float64 g =
     (real (Rand g (RandPos g) mod 2 ^ 53) / 2 ^ 53, g\<lparr>RandPos := RandPos g + 1\<rparr>)"

definition Intn :: "nat \<Rightarrow> GameState \<Rightarrow> nat \<times> GameState" where
  "Intn n g = (Rand g (RandPos g) mod n, g\<lparr>RandPos := RandPos g + 1\<rparr>)"

subsection \<open>Players and party damage\<close>

definition player :: "GameState \<Rightarrow> nat \<Rightarrow> Player" where
  "player g p = Heap g ! p"

definition set_player :: "nat \<Rightarrow> Player \<Rightarrow> GameState \<Rightarrow> GameState" where
  "set_player p v g = g\<lparr>Heap := (Heap g)[p := v]\<rparr>"

definition GetCurrentPlayer :: "GameState \<Rightarrow> nat option" where
  "GetCurrentPlayer g =
     (if CurrentPlayerIdx g \<ge> length (Players g) then None
      else Some (Players g ! CurrentPlayerIdx g))"

definition GetHumanPlayers :: "GameState \<Rightarrow> nat list" where
  "GetHumanPlayers g =
     filter (\<lambda>p. p_Type (player g p) = PlayerTypeHuman \<and> p_Alive (player g p)) (Players g)"

text \<open>\<^verbatim>\<open>CheckAllPlayersDead\<close>: the engine is finished when no human of the roster is alive.\<close>

definition CheckAllPlayersDead :: "GameState \<Rightarrow> GameState" where
  "CheckAllPlayersDead g =
     (if list_ex (\<lambda>p. p_Type (player g p) = PlayerTypeHuman \<and> p_Alive (player g p)) (Players g)
      then g else g\<lparr>GameOver := True\<rparr>)"

text \<open>
  \<^verbatim>\<open>DamagePartyMember(p, memberIdx, amount)\<close>. The index is a \<open>nat\<close>, so the source's test
  \<^verbatim>\<open>memberIdx < 0\<close> has no case here; its callers pass loop indices and constants.
\<close>

definition DamagePartyMember :: "nat \<Rightarrow> nat \<Rightarrow> int \<Rightarrow> GameState \<Rightarrow> GameState" where
  "DamagePartyMember p memberIdx amount g =
     (let pl = player g p in
      if memberIdx \<ge> length (p_Party pl) then g
      else
        let m = p_Party pl ! memberIdx in
        if m_Alive m then
          (if m_Health m - amount \<le> 0 then
             (let dead = m\<lparr>m_Alive := False, m_Health := 0\<rparr>;
                  pl1 = pl\<lparr>p_Party := (p_Party pl)[memberIdx := dead]\<rparr>
              in if memberIdx = 0
                 then CheckAllPlayersDead (set_player p (pl1\<lparr>p_Alive := False\<rparr>) g)
                 else set_player p pl1 g)
           else
             set_player p
               (pl\<lparr>p_Party := (p_Party pl)
                   [memberIdx := m\<lparr>m_Health := m_Health m - amount, m_Injured := True\<rparr>]\<rparr>) g)
        else g)"

definition aliveMembers :: "Player \<Rightarrow> nat list" where
  "aliveMembers pl = filter (\<lambda>i. m_Alive (p_Party pl ! i)) [0..<length (p_Party pl)]"

definition DamageRandomMember :: "nat \<Rightarrow> int \<Rightarrow> GameState \<Rightarrow> GameState" where
  "DamageRandomMember p amount g =
     (let alive = aliveMembers (player g p) in
      if alive = [] then g
      else
        let (k, g1) = Intn (length alive) g
        in DamagePartyMember p (alive ! k) amount g1)"

definition clamp0 :: "real \<Rightarrow> real" where
  "clamp0 x = (if x < 0 then 0 else x)"

definition ClampResources :: "GameState \<Rightarrow> GameState" where
  "ClampResources g =
     g\<lparr>Food := clamp0 (Food g), Bullets := clamp0 (Bullets g), Clothing := clamp0 (Clothing g),
       MiscSupplies := clamp0 (MiscSupplies g), Cash := clamp0 (Cash g),
       Mileage := clamp0 (Mileage g), OxenCost := clamp0 (OxenCost g)\<rparr>"

subsection \<open>River crossings\<close>

text \<open>\<^verbatim>\<open>HandleRiverCrossing\<close>: four mileage bands, each with its own mishap chance.\<close>

definition HandleRiverCrossing :: "nat \<Rightarrow> GameState \<Rightarrow> GameState" where
  "HandleRiverCrossing p g =
     (if Mileage g \<ge> 600 \<and> Mileage g < 1200 then
        (let (r, g1) = Float64 g in
         if r < 0.15 then
           (let (d, g2) = Float64 g1 in
            DamageRandomMember p 5 (ClampResources
              (g2\<lparr>Food := Food g2 - 30, Clothing := Clothing g2 - 20,
                  Mileage := Mileage g2 - (d * 20 + 20)\<rparr>)))
         else g1)
      else if Mileage g \<ge> 2000 \<and> Mileage g < 2600 then
        (let (r, g1) = Float64 g in
         if r < 0.2 then
           (let (d, g2) = Float64 g1 in
            DamageRandomMember p 10 (ClampResources
              (g2\<lparr>Food := Food g2 - 40, MiscSupplies := MiscSupplies g2 - 10,
                  Mileage := Mileage g2 - (d * 30 + 25)\<rparr>)))
         else g1)
      else if Mileage g \<ge> 3000 \<and> Mileage g < 3400 then
        (let (r, g1) = Float64 g in
         if r < 0.22 then
           (let (d, g2) = Float64 g1 in
            DamageRandomMember p 15 (ClampResources
              (g2\<lparr>Food := Food g2 - 35, Bullets := Bullets g2 - 30,
                  Mileage := Mileage g2 - (d * 25 + 20)\<rparr>)))
         else g1)
      else if Mileage g \<ge> 3800 \<and> Mileage g < 4200 then
        (let (r, g1) = Float64 g in
         if r < 0.25 then
           (let (d, g2) = Float64 g1 in
            DamageRandomMember p 20 (ClampResources
              (g2\<lparr>Food := Food g2 - 50, Clothing := Clothing g2 - 30,
                  Mileage := Mileage g2 - (d * 40 + 30)\<rparr>)))
         else g1)
      else g)"

subsection \<open>Illness, shooting and riders\<close>

definition HandleIllness :: "nat \<Rightarrow> int \<Rightarrow> GameState \<Rightarrow> GameState" where
  "HandleIllness p eatingLevel g =
     (let illnessChance =
            (if eatingLevel = 1 then 0.65 else if eatingLevel = 2 then 0.50
             else if eatingLevel = 3 then 0.25 else (0::real));
          (r, g1) = Float64 g
      in if r < illnessChance then
           (let (severity, g2) = Float64 g1;
                g3 = (if severity < 0.33 then
                        DamageRandomMember p 10
                          (g2\<lparr>Mileage := Mileage g2 - 5, MiscSupplies := MiscSupplies g2 - 2\<rparr>)
                      else if severity < 0.66 then
                        DamageRandomMember p 20
                          (g2\<lparr>Mileage := Mileage g2 - 5, MiscSupplies := MiscSupplies g2 - 5\<rparr>)
                      else
                        DamageRandomMember p 30
                          (g2\<lparr>MiscSupplies := MiscSupplies g2 - 10, Cash := Cash g2 - 20\<rparr>))
            in if MiscSupplies g3 < 0 \<and> \<not> GameOver g3 then DamageRandomMember p 40 g3 else g3)
         else g1)"

definition HandleEatingResult :: "nat \<Rightarrow> int \<Rightarrow> GameState \<Rightarrow> GameState" where
  "HandleEatingResult p eatingLevel g = HandleIllness p eatingLevel g"

text \<open>
  \<^verbatim>\<open>getShootingTime(p)\<close> reads only the type and the shooting rank of \<open>p\<close>; the events
  call it on a temporary CPU player of rank 0.
\<close>

definition getShootingTime :: "PlayerType \<Rightarrow> int \<Rightarrow> GameState \<Rightarrow> real \<times> GameState" where
  "getShootingTime ty rank g =
     (if ty = PlayerTypeCPU then
        (let (r, g1) = Float64 g in (0.5 + r * 1.5 - real_of_int (rank - 1) * 0.15, g1))
      else (0, g))"

definition calculateAccuracy :: "real \<Rightarrow> int \<Rightarrow> real" where
  "calculateAccuracy shootTime shootingRank =
     (let a = shootTime * 3600 - real_of_int (shootingRank - 1);
          a1 = (if a \<le> 0 then 0 else a)
      in if a1 > 9 then 9 else a1)"

definition CheckRiders :: "GameState \<Rightarrow> bool \<times> GameState" where
  "CheckRiders g =
     (let baseChance = Mileage g / 100 - 4;
          (r, g1) = Float64 g;
          chance = (baseChance * baseChance + 72) / (baseChance * baseChance + 12) * 10 * r
      in if chance > 1 then (False, g1)
         else
           (let (h, g2) = Float64 g1;
                (k, g3) = Intn 8 g2
            in (True, g3\<lparr>PendingRiderHostile := (h < 0.8), PendingRiderCount := 3 + int k\<rparr>)))"

text \<open>
  The tactic switch of \<^verbatim>\<open>ResolveRiderTactic\<close>. The first component is True on the one
  early return (hostile riders, tactic 3, no attack), which skips the out-of-bullets
  penalty. A tactic outside 1..4 matches no case.
\<close>

definition riderSwitch :: "nat \<Rightarrow> int \<Rightarrow> GameState \<Rightarrow> bool \<times> GameState" where
  "riderSwitch p tactic g =
     (let pl = player g p in
      if PendingRiderHostile g then
        (if tactic = 1 then
           (let g1 = g\<lparr>Mileage := Mileage g + 20, MiscSupplies := MiscSupplies g - 15,
                        Bullets := Bullets g - 50, OxenCost := OxenCost g - 40\<rparr>;
                (r, g2) = Float64 g1
            in (False, if r < 0.3 then DamageRandomMember p 15 g2 else g2))
         else if tactic = 2 then
           (let (shootTime, g1) = getShootingTime (p_Type pl) (p_ShootingRank pl) g;
                accuracy = calculateAccuracy shootTime (p_ShootingRank pl);
                g2 = g1\<lparr>Bullets := Bullets g1 - (accuracy * 40 + 80)\<rparr>
            in (False,
                if accuracy \<le> 1 then g2
                else if accuracy > 4 then DamageRandomMember p 25 (g2\<lparr>Cash := Cash g2 - 20\<rparr>)
                else DamageRandomMember p 15 g2))
         else if tactic = 3 then
           (let (r, g1) = Float64 g in
            if r > 0.8 then (True, g1)
            else (False, DamageRandomMember p 20
                    (g1\<lparr>Bullets := Bullets g1 - 50, MiscSupplies := MiscSupplies g1 - 15\<rparr>)))
         else if tactic = 4 then
           (let (shootTime, g1) = getShootingTime (p_Type pl) (p_ShootingRank pl) g;
                accuracy = calculateAccuracy shootTime (p_ShootingRank pl);
                g2 = g1\<lparr>Bullets := Bullets g1 - (accuracy * 30 + 80), Mileage := Mileage g1 - 25\<rparr>
            in (False,
                if accuracy \<le> 1 then g2
                else if accuracy > 4 then DamageRandomMember p 30 (g2\<lparr>Cash := Cash g2 - 20\<rparr>)
                else DamageRandomMember p 15 g2))
         else (False, g))
      else
        (if tactic = 1 then
           (False, g\<lparr>Mileage := Mileage g + 15, OxenCost := OxenCost g - 10\<rparr>)
         else if tactic = 2 then
           (False, DamageRandomMember p 20
              (g\<lparr>Mileage := Mileage g - 5, Bullets := Bullets g - 50\<rparr>))
         else if tactic = 3 then (False, g)
         else if tactic = 4 then (False, g\<lparr>Mileage := Mileage g - 20\<rparr>)
         else (False, g)))"

definition ResolveRiderTactic :: "nat \<Rightarrow> int \<Rightarrow> GameState \<Rightarrow> GameState" where
  "ResolveRiderTactic p tactic g =
     (let (early, g1) = riderSwitch p tactic g in
      if early then ClampResources g1
      else ClampResources (if Bullets g1 < 0 then DamageRandomMember p 50 g1 else g1))"

fun pickWeighted :: "real \<Rightarrow> real \<Rightarrow> nat \<Rightarrow> real list \<Rightarrow> int" where
  "pickWeighted r acc i [] = 3"
| "pickWeighted r acc i (w # ws) =
     (if r \<le> acc + w then int i + 1 else pickWeighted r (acc + w) (Suc i) ws)"

definition cpuChooseTactic :: "bool \<Rightarrow> GameState \<Rightarrow> int \<times> GameState" where
  "cpuChooseTactic hostile g =
     (if \<not> hostile then (3, g)
      else (let (r, g1) = Float64 g in (pickWeighted r 0 0 [0.2, 0.3, 0.2, 0.3], g1)))"

subsection \<open>Random events\<close>

definition eventWagonBreakdown :: "nat \<Rightarrow> GameState \<Rightarrow> GameState" where
  "eventWagonBreakdown p g =
     (let (r, g1) = Float64 g in
      g1\<lparr>Mileage := Mileage g1 - (15 + r * 5), MiscSupplies := MiscSupplies g1 - 8\<rparr>)"

definition eventOxInjury :: "nat \<Rightarrow> GameState \<Rightarrow> GameState" where
  "eventOxInjury p g = g\<lparr>Mileage := Mileage g - 25, OxenCost := OxenCost g - 20\<rparr>"

definition eventDaughterBrokenArm :: "nat \<Rightarrow> GameState \<Rightarrow> GameState" where
  "eventDaughterBrokenArm p g =
     (let (r1, g1) = Float64 g;
          (r2, g2) = Float64 g1;
          g3 = g2\<lparr>Mileage := Mileage g2 - (5 + r1 * 4),
                  MiscSupplies := MiscSupplies g2 - (2 + r2 * 3)\<rparr>
      in if length (p_Party (player g3 p)) > 3 \<and> m_Alive (p_Party (player g3 p) ! 3)
         then DamagePartyMember p 3 10 g3 else g3)"

definition eventOxWandersOff :: "nat \<Rightarrow> GameState \<Rightarrow> GameState" where
  "eventOxWandersOff p g = g\<lparr>Mileage := Mileage g - 17\<rparr>"

definition eventSonGetsLost :: "nat \<Rightarrow> GameState \<Rightarrow> GameState" where
  "eventSonGetsLost p g =
     (let g1 = g\<lparr>Mileage := Mileage g - 10\<rparr>
      in if length (p_Party (player g1 p)) > 2 \<and> m_Alive (p_Party (player g1 p) ! 2)
         then DamagePartyMember p 2 8 g1 else g1)"

definition eventUnsafeWater :: "nat \<Rightarrow> GameState \<Rightarrow> GameState" where
  "eventUnsafeWater p g =
     (let (r, g1) = Float64 g in
      DamageRandomMember p 8 (g1\<lparr>Mileage := Mileage g1 - (10 + r * 10)\<rparr>))"

definition eventHeavyRains :: "nat \<Rightarrow> GameState \<Rightarrow> GameState" where
  "eventHeavyRains p g =
     (if Mileage g > MountainThreshold then
        (let (r, g1) = Float64 g in
         if Clothing g1 > 22 + r * 4 then g1 else DamageRandomMember p 12 g1)
      else
        (let g1 = g\<lparr>Food := Food g - 10, Bullets := Bullets g - 50,
                     MiscSupplies := MiscSupplies g - 15\<rparr>;
             (r, g2) = Float64 g1
         in g2\<lparr>Mileage := Mileage g2 - (10 + r * 10)\<rparr>))"

definition eventBandits :: "nat \<Rightarrow> GameState \<Rightarrow> GameState" where
  "eventBandits p g =
     (let (shootTime, g1) = getShootingTime PlayerTypeCPU 0 g;
          accuracy = calculateAccuracy shootTime 3;
          g2 = g1\<lparr>Bullets := Bullets g1 - 20 * accuracy\<rparr>
      in if Bullets g2 < 0 then
           DamageRandomMember p 30
             (g2\<lparr>Cash := Cash g2 / 3 - 20, OxenCost := OxenCost g2 - 20,
                 MiscSupplies := MiscSupplies g2 - 5\<rparr>)
         else if accuracy \<le> 1 then
           (let (c, g3) = Float64 g2;
                (f, g4) = Float64 g3;
                (b, g5) = Float64 g4
            in ClampResources
                 (g5\<lparr>Cash := Cash g5 + (30 + c * 50), Food := Food g5 + (15 + f * 25),
                     Bullets := Bullets g5 + (30 + b * 70)\<rparr>))
         else
           DamageRandomMember p 20
             (g2\<lparr>OxenCost := OxenCost g2 - 20, MiscSupplies := MiscSupplies g2 - 5\<rparr>))"

definition eventFireInWagon :: "nat \<Rightarrow> GameState \<Rightarrow> GameState" where
  "eventFireInWagon p g =
     (let (r, g1) = Float64 g;
          g2 = g1\<lparr>Food := Food g1 - 40, Bullets := Bullets g1 - 40,
                  MiscSupplies := MiscSupplies g1 - (3 + r * 8), Mileage := Mileage g1 - 15\<rparr>;
          (q, g3) = Float64 g2
      in if q < 0.3 then DamageRandomMember p 15 g3 else g3)"

definition eventLostInFog :: "nat \<Rightarrow> GameState \<Rightarrow> GameState" where
  "eventLostInFog p g =
     (let (r, g1) = Float64 g in g1\<lparr>Mileage := Mileage g1 - (10 + r * 5)\<rparr>)"

definition eventSnakeBite :: "nat \<Rightarrow> GameState \<Rightarrow> GameState" where
  "eventSnakeBite p g =
     (let g1 = g\<lparr>Bullets := Bullets g - 10, MiscSupplies := MiscSupplies g - 5\<rparr>
      in if MiscSupplies g1 < 0 then DamageRandomMember p 40 g1
         else DamageRandomMember p 25 g1)"

definition eventWagonSwamped :: "nat \<Rightarrow> GameState \<Rightarrow> GameState" where
  "eventWagonSwamped p g =
     (let (r, g1) = Float64 g in
      g1\<lparr>Food := Food g1 - 30, Clothing := Clothing g1 - 20,
         Mileage := Mileage g1 - (20 + r * 20)\<rparr>)"

definition eventWildAnimals :: "nat \<Rightarrow> GameState \<Rightarrow> GameState" where
  "eventWildAnimals p g =
     (let (shootTime, g1) = getShootingTime PlayerTypeCPU 0 g;
          accuracy = calculateAccuracy shootTime 3
      in if Bullets g1 < 40 then DamageRandomMember p 35 g1
         else
           (let g2 = g1\<lparr>Bullets := Bullets g1 - 20 * accuracy,
                        Clothing := Clothing g1 - accuracy * 4,
                        Food := Food g1 - accuracy * 8\<rparr>
            in if accuracy \<le> 2 then g2 else DamageRandomMember p 15 g2))"

definition eventHailStorm :: "nat \<Rightarrow> GameState \<Rightarrow> GameState" where
  "eventHailStorm p g =
     (let (r1, g1) = Float64 g;
          (r2, g2) = Float64 g1;
          g3 = g2\<lparr>Mileage := Mileage g2 - (5 + r1 * 10), Bullets := Bullets g2 - 20,
                  MiscSupplies := MiscSupplies g2 - (4 + r2 * 3)\<rparr>;
          (q, g4) = Float64 g3
      in if q < 0.2 then DamageRandomMember p 10 g4 else g4)"

definition eventBadFood :: "nat \<Rightarrow> GameState \<Rightarrow> GameState" where
  "eventBadFood p g = DamageRandomMember p 12 g"

definition eventAbandonedWagon :: "nat \<Rightarrow> GameState \<Rightarrow> GameState" where
  "eventAbandonedWagon p g =
     (let (c, g1) = Float64 g;
          (f, g2) = Float64 g1;
          (b, g3) = Float64 g2
      in ClampResources
           (g3\<lparr>Cash := Cash g3 + (20 + c * 30), Food := Food g3 + (20 + f * 40),
               Bullets := Bullets g3 + (50 + b * 100)\<rparr>))"

text \<open>The first threshold above the draw selects the event; index 0 when none is.\<close>

fun thresholdIndex :: "real \<Rightarrow> nat \<Rightarrow> real list \<Rightarrow> nat" where
  "thresholdIndex r i [] = 0"
| "thresholdIndex r i (t # ts) = (if r < t then i else thresholdIndex r (Suc i) ts)"

definition events :: "(nat \<Rightarrow> GameState \<Rightarrow> GameState) list" where
  "events =
     [eventWagonBreakdown, eventOxInjury, eventDaughterBrokenArm, eventOxWandersOff,
      eventSonGetsLost, eventUnsafeWater, eventHeavyRains, eventBandits, eventFireInWagon,
      eventLostInFog, eventSnakeBite, eventWagonSwamped, eventWildAnimals, eventHailStorm,
      eventBadFood]"

definition HandleRandomEvent :: "nat \<Rightarrow> GameState \<Rightarrow> GameState" where
  "HandleRandomEvent p g =
     (let (u, g1) = Float64 g;
          eventIdx = thresholdIndex (u * 100) 0
                       [6, 11, 13, 15, 17, 22, 32, 35, 37, 42, 44, 54, 64, 69, 100];
          g2 = (events ! eventIdx) p g1;
          (w, g3) = Float64 g2
      in if w < 0.05 then eventAbandonedWagon p g3 else g3)"

subsection \<open>Mountains, arrival and the end of a turn\<close>

definition HandleMountains :: "nat \<Rightarrow> GameState \<Rightarrow> GameState" where
  "HandleMountains p g =
     (let mileRef = Mileage g / 100;
          baseChance = mileRef - MountainThreshold / 100;
          mountainFactor = 9 - (baseChance * baseChance + 72) / (baseChance * baseChance + 12);
          (r0, g1) = Float64 g;
          g2 = (if r0 * 10 * mountainFactor > 0 then
                  (let (r, ga) = Float64 g1 in
                   if r \<le> 0.1 then ga\<lparr>Mileage := Mileage ga - 60\<rparr>
                   else if r \<le> 0.11 then
                     (let (d, gb) = Float64 ga in
                      gb\<lparr>MiscSupplies := MiscSupplies gb - 5, Bullets := Bullets gb - 20,
                         Mileage := Mileage gb - (20 + d * 30)\<rparr>)
                   else
                     (let (d, gb) = Float64 ga in gb\<lparr>Mileage := Mileage gb - (45 + d * 50)\<rparr>))
                else g1);
          g3 = (if Mileage g2 > 3800 \<and> Mileage g2 < TrailLength then
                  (let (b, ga) = Float64 g2 in
                   if b < 0.3 then
                     (let (d, gb) = Float64 ga;
                          gc = gb\<lparr>Food := Food gb - 25, MiscSupplies := MiscSupplies gb - 10,
                                  Bullets := Bullets gb - 30, Mileage := Mileage gb - (30 + d * 40)\<rparr>;
                          (c, gd) = Float64 gc
                      in if Clothing gd < 18 + c * 2 then HandleIllness p 2 gd else gd)
                   else ga)
                else g2)
      in ClampResources g3)"

definition HandleFinalTurn :: "nat \<Rightarrow> GameState \<Rightarrow> GameState" where
  "HandleFinalTurn p g = g\<lparr>GameOver := True, Win := True, FinalDate := Some (TurnNumber g * 7)\<rparr>"

text \<open>\<^verbatim>\<open>FinishTurn\<close> completes the rest of a turn after riders are resolved.\<close>

definition FinishTurn :: "nat \<Rightarrow> int \<Rightarrow> GameState \<Rightarrow> GameState" where
  "FinishTurn p eatingLevel g =
     (let g1 = (if \<not> GameOver g \<and> p_Alive (player g p) then HandleRandomEvent p g else g);
          g2 = (if \<not> GameOver g1 \<and> p_Alive (player g1 p) \<and> Mileage g1 > MountainThreshold
                then HandleMountains p g1 else g1);
          g3 = HandleEatingResult p eatingLevel g2;
          g4 = ClampResources g3
      in if \<not> GameOver g4 \<and> Mileage g4 \<ge> TrailLength then HandleFinalTurn p g4 else g4)"

text \<open>
  \<^verbatim>\<open>ContinueTravel\<close>: starvation, eating, travel, river crossing, the rider check, and
  the rest of the turn. The one source function is written here in parts:
  \<open>starve\<close> is its starvation loop, \<open>eatAndTravel\<close> its lines from the choice of the
  eating tier to the river crossing (it returns the tier, the miles travelled and the
  state), \<open>ridersAndFinish\<close> its lines from the rider check to the end, and
  \<open>finishIfAlive\<close> its closing call of \<^verbatim>\<open>FinishTurn\<close> under the guard. For a human
  the rider check returns early in phase \<open>PhaseRiders\<close>, with the eating tier kept in
  \<open>PendingEatingLevel\<close>.
\<close>

definition starve :: "nat \<Rightarrow> GameState \<Rightarrow> GameState" where
  "starve p g =
     fold (\<lambda>i s. if m_Alive (p_Party (player s p) ! i) then DamagePartyMember p i 20 s else s)
       [0..<length (p_Party (player g p))] g"

definition eatAndTravel :: "nat \<Rightarrow> GameState \<Rightarrow> int \<times> real \<times> GameState" where
  "eatAndTravel p g =
     (let eatingLevel = (if p_Type (player g p) = PlayerTypeCPU then
                           (if Food g > 200 then 3 else if Food g > 100 then 2 else 1)
                         else (2::int));
          foodConsumed = 8 + 5 * eatingLevel;
          g1 = g\<lparr>Food := Food g - real_of_int foodConsumed\<rparr>;
          (r, g2) = Float64 g1;
          baseTravel = 80 + (OxenCost g2 - 220) / 5 + r * 15
      in (eatingLevel, baseTravel,
          HandleRiverCrossing p (g2\<lparr>Mileage := Mileage g2 + baseTravel\<rparr>)))"

definition finishIfAlive :: "nat \<Rightarrow> int \<Rightarrow> GameState \<Rightarrow> GameState" where
  "finishIfAlive p eatingLevel g =
     (if \<not> GameOver g \<and> p_Alive (player g p) then FinishTurn p eatingLevel g else g)"

definition ridersAndFinish :: "nat \<Rightarrow> int \<times> real \<times> GameState \<Rightarrow> GameState" where
  "ridersAndFinish p t =
     (case t of (eatingLevel, baseTravel, g3) \<Rightarrow>
        if baseTravel > 1 \<and> \<not> GameOver g3 \<and> p_Alive (player g3 p) then
          (let (riders, g4) = CheckRiders g3 in
           if riders then
             (if p_Type (player g4 p) = PlayerTypeHuman then
                g4\<lparr>TurnPhase := PhaseRiders, PendingEatingLevel := eatingLevel\<rparr>
              else
                (let (tactic, g5) = cpuChooseTactic (PendingRiderHostile g4) g4
                 in finishIfAlive p eatingLevel (ResolveRiderTactic p tactic g5)))
           else finishIfAlive p eatingLevel g4)
        else finishIfAlive p eatingLevel g3)"

definition ContinueTravel :: "nat \<Rightarrow> GameState \<Rightarrow> GameState" where
  "ContinueTravel p g =
     (if Food g < 13 then
        (let g1 = starve p g in
         if \<not> p_Alive (player g1 p) then g1 else ridersAndFinish p (eatAndTravel p g1))
      else ridersAndFinish p (eatAndTravel p g))"

subsection \<open>Replies\<close>

text \<open>
  What a request answers. Each constructor stands for one text of the source:
  \<^item> \<open>NoReply\<close>: the empty string;
  \<^item> \<open>PlayerNotFound\<close>: "Error: Player not found.";
  \<^item> \<open>Spectating\<close>: "Your party has perished. You are spectating.";
  \<^item> \<open>GetReady\<close>: "Get ready to shoot...";
  \<^item> \<open>NotEnoughBullets\<close>: "Not enough bullets to hunt!" followed by the narrative of
    the travel that \<^verbatim>\<open>ContinueTravel\<close> then makes;
  \<^item> \<open>Narrative\<close>: the narrative of a resolved action;
  \<^item> \<open>NotAtFort\<close>: "You're not at a fort!"; \<open>InvalidQuantity\<close>: "Invalid quantity.";
    \<open>UnknownItem\<close>: "Unknown item.";
  \<^item> \<open>NotEnoughCash cost cash\<close>: "Not enough cash! Need $cost but only have $cash";
  \<^item> \<open>NotEnoughToSell item have need\<close>: "Not enough (item) to sell! Have .., need ..";
  \<^item> \<open>Bought gained item cost\<close>, \<open>Sold amount item earnings\<close>;
  \<^item> \<open>LeftFort\<close>: "You leave the fort and continue on the trail.";
  \<^item> \<open>NotYourTurn\<close>: "It's not your turn."; \<open>NoFortHere\<close>: "No fort is available at this
    location."; \<open>ArrivedAtFort\<close>: "You arrive at a fort. You can buy supplies here.";
  \<^item> \<open>LootOnlyContinuous\<close>: "Loot sites are only available in 24/7 mode.";
    \<open>TooFar\<close>: "You're too far from that loot site.";
    \<open>AlreadyScavenged by\<close>: "This wagon has already been scavenged by (by).";
    \<open>Looted site\<close>: "You looted ...'s wagon and found: ..."; \<open>LootNotFound\<close>: "Loot site
    not found.";
  \<^item> \<open>NotHunting\<close>: "You're not hunting right now."; \<open>NoRiders\<close>: "There are no riders
    right now."; \<open>JourneyBegins\<close> and \<open>WagonTrainDeparts\<close>: the answers to "start" and
    "start_game".
\<close>

datatype reply =
  NoReply | PlayerNotFound | Spectating | GetReady | NotEnoughBullets | Narrative
  | NotAtFort | InvalidQuantity | UnknownItem
  | NotEnoughCash real real | NotEnoughToSell string real real
  | Bought real string real | Sold real string real | LeftFort
  | NotYourTurn | NoFortHere | ArrivedAtFort
  | LootOnlyContinuous | TooFar | AlreadyScavenged string | Looted LootSite | LootNotFound
  | NotHunting | NoRiders | JourneyBegins | WagonTrainDeparts

subsection \<open>Hunting\<close>

definition GetShootingPrompt :: "GameState \<Rightarrow> string \<times> GameState" where
  "GetShootingPrompt g =
     (let (wordIdx, g1) = Intn (length shootingWords) g in (shootingWords ! wordIdx, g1))"

text \<open>\<^verbatim>\<open>HandleHunting\<close>: the hunt a CPU player resolves at once.\<close>

definition HandleHunting :: "nat \<Rightarrow> GameState \<Rightarrow> GameState" where
  "HandleHunting p g =
     (if Bullets g < 50 then g
      else
        (let g1 = g\<lparr>Bullets := Bullets g - 50\<rparr>;
             (shootTime, g2) = getShootingTime (p_Type (player g1 p)) (p_ShootingRank (player g1 p)) g1;
             accuracy = calculateAccuracy shootTime (p_ShootingRank (player g2 p));
             g3 = (if accuracy \<le> 1 then
                     (let (r, ga) = Float64 g2 in ga\<lparr>Food := Food ga + (52 + r * 6)\<rparr>)
                   else
                     (let (r, ga) = Float64 g2 in
                      if r * 100 < 13 * accuracy then ga
                      else ga\<lparr>Food := Food ga + (48 - 2 * accuracy)\<rparr>));
             g4 = g3\<lparr>Bullets := Bullets g3 - (10 + 3 * accuracy)\<rparr>;
             g5 = (if Bullets g4 < 0 then g4\<lparr>Bullets := 0\<rparr> else g4);
             (t, g6) = Float64 g5;
             g7 = ClampResources (g6\<lparr>Mileage := Mileage g6 + (45 + t * 20)\<rparr>)
         in if Mileage g7 \<ge> TrailLength then HandleFinalTurn p g7 else g7))"

text \<open>
  \<^verbatim>\<open>ProcessTurn(p, action)\<close>. A human's hunt with 50 bullets or more enters
  \<open>PhaseHunting\<close> and returns; a hunt with fewer bullets says so and travels on.
\<close>

definition ProcessTurn :: "nat option \<Rightarrow> string \<Rightarrow> GameState \<Rightarrow> reply \<times> GameState" where
  "ProcessTurn po action g =
     (case po of
        None \<Rightarrow> (PlayerNotFound, g)
      | Some p \<Rightarrow>
          if \<not> p_Alive (player g p) then (Spectating, g)
          else
            (let g1 = g\<lparr>TurnPhase := PhaseMainMenu\<rparr> in
             if action = ''hunt'' then
               (if Bullets g1 \<ge> 50 then
                  (if p_Type (player g1 p) = PlayerTypeCPU then (Narrative, HandleHunting p g1)
                   else
                     (let (word, g2) = GetShootingPrompt (g1\<lparr>TurnPhase := PhaseHunting\<rparr>)
                      in (GetReady, g2\<lparr>HuntWord := word, Bullets := Bullets g2 - 50\<rparr>)))
                else (NotEnoughBullets, ContinueTravel p g1))
             else (Narrative, ContinueTravel p g1)))"

text \<open>\<^verbatim>\<open>HandleHuntShoot\<close> resolves a hunting attempt from the player's reaction time.\<close>

definition huntAccuracy :: "int \<Rightarrow> real" where
  "huntAccuracy reactionTimeMs =
     (if reactionTimeMs < 300 then 0
      else if reactionTimeMs < 600 then 1 + real_of_int (reactionTimeMs - 300) / 300
      else if reactionTimeMs < 1000 then 3 + real_of_int (reactionTimeMs - 600) / 250
      else if reactionTimeMs < 2000 then 6 + real_of_int (reactionTimeMs - 1000) / 500
      else 9)"

definition HandleHuntShoot :: "nat option \<Rightarrow> int \<Rightarrow> GameState \<Rightarrow> reply \<times> GameState" where
  "HandleHuntShoot po reactionTimeMs g =
     (case po of
        None \<Rightarrow> (PlayerNotFound, g)
      | Some p \<Rightarrow>
          (let accuracy = huntAccuracy reactionTimeMs;
               g1 = (if accuracy \<le> 2 then
                       (let (r, ga) = Float64 g in ga\<lparr>Food := Food ga + (52 + r * 6)\<rparr>)
                     else
                       (let (r, ga) = Float64 g in
                        if r * 100 < 13 * accuracy then ga
                        else ga\<lparr>Food := Food ga + (48 - 2 * accuracy)\<rparr>));
               g2 = g1\<lparr>Bullets := Bullets g1 - (10 + 3 * accuracy)\<rparr>;
               g3 = (if Bullets g2 < 0 then g2\<lparr>Bullets := 0\<rparr> else g2);
               (t, g4) = Float64 g3;
               g5 = (ClampResources (g4\<lparr>Mileage := Mileage g4 + (45 + t * 20)\<rparr>))
                      \<lparr>TurnPhase := PhaseMainMenu\<rparr>
           in (Narrative, if Mileage g5 \<ge> TrailLength then HandleFinalTurn p g5 else g5)))"

text \<open>
  \<^verbatim>\<open>HandleRiderTactic\<close> resolves a rider encounter with the chosen tactic, then finishes
  the rest of the turn with the eating tier kept in \<open>PendingEatingLevel\<close>.
\<close>

definition HandleRiderTactic :: "nat option \<Rightarrow> int \<Rightarrow> GameState \<Rightarrow> reply \<times> GameState" where
  "HandleRiderTactic po tactic g =
     (case po of
        None \<Rightarrow> (PlayerNotFound, g)
      | Some p \<Rightarrow>
          (let g1 = ResolveRiderTactic p tactic g;
               g2 = (if \<not> GameOver g1 \<and> p_Alive (player g1 p)
                     then FinishTurn p (PendingEatingLevel g1) g1 else g1)
           in (Narrative, g2\<lparr>TurnPhase := PhaseMainMenu\<rparr>)))"

subsection \<open>The fort\<close>

record FortItem =
  Price :: real
  Qty :: real
  Label :: string

definition GetFortPrices :: "string \<Rightarrow> FortItem option" where
  "GetFortPrices item =
     (if item = ''food'' then Some \<lparr>Price = 10, Qty = 25, Label = ''Food Pack (25 lbs)''\<rparr>
      else if item = ''bullets'' then Some \<lparr>Price = 5, Qty = 50, Label = ''Ammo Box (50 rounds)''\<rparr>
      else if item = ''clothing'' then Some \<lparr>Price = 5, Qty = 5, Label = ''Clothing (5 sets)''\<rparr>
      else if item = ''misc'' then Some \<lparr>Price = 5, Qty = 5, Label = ''Supply Kit (5 kits)''\<rparr>
      else None)"

definition HandleFortBuy :: "string \<Rightarrow> int \<Rightarrow> GameState \<Rightarrow> reply \<times> GameState" where
  "HandleFortBuy item qty g =
     (if TurnPhase g \<noteq> PhaseFort then (NotAtFort, g)
      else if qty \<le> 0 then (InvalidQuantity, g)
      else
        (case GetFortPrices item of
           None \<Rightarrow> (UnknownItem, g)
         | Some fi \<Rightarrow>
             (let cost = Price fi * real_of_int qty in
              if cost > Cash g then (NotEnoughCash cost (Cash g), g)
              else
                (let g1 = g\<lparr>Cash := Cash g - cost\<rparr>;
                     gained = Qty fi * real_of_int qty;
                     g2 = (if item = ''food'' then g1\<lparr>Food := Food g1 + gained\<rparr>
                           else if item = ''bullets'' then g1\<lparr>Bullets := Bullets g1 + gained\<rparr>
                           else if item = ''clothing'' then g1\<lparr>Clothing := Clothing g1 + gained\<rparr>
                           else if item = ''misc'' then
                             g1\<lparr>MiscSupplies := MiscSupplies g1 + gained\<rparr>
                           else g1)
                 in (Bought gained item cost, ClampResources g2)))))"

definition HandleFortSell :: "string \<Rightarrow> int \<Rightarrow> GameState \<Rightarrow> reply \<times> GameState" where
  "HandleFortSell item qty g =
     (if TurnPhase g \<noteq> PhaseFort then (NotAtFort, g)
      else if qty \<le> 0 then (InvalidQuantity, g)
      else
        (case GetFortPrices item of
           None \<Rightarrow> (UnknownItem, g)
         | Some fi \<Rightarrow>
             (let sellPrice = Price fi * 0.5;
                  amount = Qty fi * real_of_int qty;
                  earnings = sellPrice * real_of_int qty;
                  done = (\<lambda>s. (Sold amount item earnings,
                                ClampResources (s\<lparr>Cash := Cash s + earnings\<rparr>)))
              in if item = ''food'' then
                   (if Food g < amount then (NotEnoughToSell ''food'' (Food g) amount, g)
                    else done (g\<lparr>Food := Food g - amount\<rparr>))
                 else if item = ''bullets'' then
                   (if Bullets g < amount then (NotEnoughToSell ''bullets'' (Bullets g) amount, g)
                    else done (g\<lparr>Bullets := Bullets g - amount\<rparr>))
                 else if item = ''clothing'' then
                   (if Clothing g < amount
                    then (NotEnoughToSell ''clothing'' (Clothing g) amount, g)
                    else done (g\<lparr>Clothing := Clothing g - amount\<rparr>))
                 else if item = ''misc'' then
                   (if MiscSupplies g < amount
                    then (NotEnoughToSell ''supplies'' (MiscSupplies g) amount, g)
                    else done (g\<lparr>MiscSupplies := MiscSupplies g - amount\<rparr>))
                 else done g)))"

definition HandleFortLeave :: "GameState \<Rightarrow> reply \<times> GameState" where
  "HandleFortLeave g = (LeftFort, g\<lparr>TurnPhase := PhaseMainMenu\<rparr>)"

subsection \<open>Roster and turn order\<close>

fun firstIndex :: "('a \<Rightarrow> bool) \<Rightarrow> 'a list \<Rightarrow> nat option" where
  "firstIndex P [] = None"
| "firstIndex P (x # xs) = (if P x then Some 0 else map_option Suc (firstIndex P xs))"

text \<open>
  \<^verbatim>\<open>NextTurn\<close> rotates among the alive humans. \<open>firstHuman\<close> is its fallback loop,
  which picks the first alive human of the roster and leaves the index alone when there
  is none. The turn counter is never negative, so \<open>mod\<close> is Go's \<^verbatim>\<open>%\<close>.
\<close>

definition firstHuman :: "GameState \<Rightarrow> GameState" where
  "firstHuman g =
     (case firstIndex (\<lambda>q. p_Type (player g q) = PlayerTypeHuman \<and> p_Alive (player g q))
             (Players g) of
        None \<Rightarrow> g
      | Some idx \<Rightarrow> g\<lparr>CurrentPlayerIdx := idx\<rparr>)"

definition NextTurn :: "GameState \<Rightarrow> GameState" where
  "NextTurn g =
     (let humans = GetHumanPlayers g in
      if humans = [] then g\<lparr>GameOver := True\<rparr>
      else
        (let g1 = g\<lparr>TurnNumber := TurnNumber g + 1\<rparr>;
             g2 = (if TurnNumber g1 mod 4 = 0 then g1\<lparr>Week := Week g1 + 1\<rparr> else g1)
         in if length humans = 1 then
              (case firstIndex (\<lambda>q. q = humans ! 0) (Players g2) of
                 None \<Rightarrow> g2
               | Some idx \<Rightarrow> g2\<lparr>CurrentPlayerIdx := idx\<rparr>)
            else
              (case GetCurrentPlayer g2 of
                 None \<Rightarrow> firstHuman g2
               | Some currentHuman \<Rightarrow>
                   (case firstIndex (\<lambda>h. h = currentHuman) humans of
                      None \<Rightarrow> firstHuman g2
                    | Some i \<Rightarrow>
                        (case firstIndex (\<lambda>q. q = humans ! ((i + 1) mod length humans))
                                (Players g2) of
                           None \<Rightarrow> firstHuman g2
                         | Some idx \<Rightarrow> g2\<lparr>CurrentPlayerIdx := idx\<rparr>)))))"

fun decimal :: "nat \<Rightarrow> string" where
  "decimal n =
     (if n < 10 then [char_of (48 + n)] else decimal (n div 10) @ [char_of (48 + n mod 10)])"

definition showInt :: "int \<Rightarrow> string" where
  "showInt i = (if i < 0 then ''-'' @ decimal (nat (- i)) else decimal (nat i))"

text \<open>
  \<^verbatim>\<open>AddPlayer\<close> allocates a Player with a party of five and appends it to the roster;
  \<open>now\<close> is the clock in nanoseconds that \<^verbatim>\<open>generateID\<close> reads. The channels of a
  Player are never used and are left out.
\<close>

definition newParty :: "PartyMember list" where
  "newParty =
     map (\<lambda>n. \<lparr>m_Name = n, m_Alive = True, m_Health = 100, m_Injured = False\<rparr>)
       [''You'', ''Wife'', ''Son'', ''Daughter'', ''Baby'']"

definition AddPlayer :: "int \<Rightarrow> string \<Rightarrow> PlayerType \<Rightarrow> GameState \<Rightarrow> nat \<times> GameState" where
  "AddPlayer now name pType g =
     (let pl = \<lparr>p_ID = ''player-'' @ showInt now, p_Name = name, p_Type = pType,
                p_Party = newParty, p_Connected = True, p_ShootingRank = 3, p_Alive = True\<rparr>
      in (length (Heap g), g\<lparr>Heap := Heap g @ [pl], Players := Players g @ [length (Heap g)]\<rparr>))"

definition NewGameState :: "(nat \<Rightarrow> nat) \<Rightarrow> GameState" where
  "NewGameState seed =
     \<lparr>Heap = [], Players = [], CurrentPlayerIdx = 0, TurnNumber = 0, Week = 1, Day = 1,
      Mileage = 0, Food = 0, Bullets = 0, Clothing = 0, MiscSupplies = 0, Cash = 0,
      OxenCost = 0, DistanceTraveled = 0, TurnPhase = PhaseStart, EventLog = [],
      GameOver = False, Win = False, FinalDate = None, Rand = seed, RandPos = 0,
      PendingRiderHostile = False, PendingEatingLevel = 0, PendingRiderCount = 0,
      HuntWord = [], FortAvailable = False, LootSites = []\<rparr>"

definition ResetGame :: "GameState \<Rightarrow> GameState" where
  "ResetGame g =
     g\<lparr>Players := [], CurrentPlayerIdx := 0, TurnNumber := 0, Week := 1, Day := 1,
       Mileage := 0, Food := 0, Bullets := 0, Clothing := 0, MiscSupplies := 0, Cash := 0,
       OxenCost := 0, DistanceTraveled := 0, TurnPhase := PhaseStart, EventLog := [],
       GameOver := False, Win := False, FinalDate := None,
       PendingRiderHostile := False, PendingEatingLevel := 0, PendingRiderCount := 0,
       HuntWord := [], FortAvailable := False, LootSites := []\<rparr>"

section \<open>Sessions, rooms and the server (cmd/server)\<close>

text \<open>
  Conventions of this part.
  \<^item> A time is a number of nanoseconds; \<open>now\<close> is what \<^verbatim>\<open>time.Now()\<close> returns, given to
    every operation that reads the clock.
  \<^item> A Go map that the code iterates over (\<^verbatim>\<open>room.clients\<close>, the sessions) is an
    association list with distinct keys; where Go's iteration order is unspecified, the
    model iterates in list order.
  \<^item> A method of \<^verbatim>\<open>Server\<close> that looks its room up and then works under the room's
    lock is a function \<open>..._locked\<close> on the room (the critical section) and a wrapper on
    the server that does the lookup.
  \<^item> The leaderboard is the list of the entries recorded; its sorting, truncation and
    file are the collaborator's. The pending turn timer is the player id its callback
    will be called with.
\<close>

subsection \<open>Session directory\<close>

record Session =
  se_ID :: string
  se_Name :: string
  se_ClientID :: string
  se_RoomID :: string
  se_CreatedAt :: int
  se_LastSeen :: int
  se_Alive :: bool

type_synonym SessionManager = "(string \<times> Session) list"

text \<open>\<^verbatim>\<open>CreateSession\<close>; \<open>fresh\<close> is the token \<^verbatim>\<open>GenerateSecureID\<close> would mint.\<close>

definition CreateSession ::
  "int \<Rightarrow> string \<Rightarrow> string \<Rightarrow> string \<Rightarrow> string \<Rightarrow> SessionManager \<Rightarrow> string \<times> SessionManager" where
  "CreateSession now fresh name clientID roomID sm =
     (case find (\<lambda>(k, se). se_ClientID se = clientID) sm of
        Some (k, se) \<Rightarrow>
          (se_ID se,
           AList.update k (se\<lparr>se_LastSeen := now, se_Alive := True, se_RoomID := roomID\<rparr>) sm)
      | None \<Rightarrow>
          (case find (\<lambda>(k, se). se_Name se = name \<and> se_Alive se) sm of
             Some (k, se) \<Rightarrow>
               (se_ID se,
                AList.update k
                  (se\<lparr>se_ClientID := clientID, se_LastSeen := now, se_Alive := True,
                      se_RoomID := roomID\<rparr>) sm)
           | None \<Rightarrow>
               (fresh,
                AList.update fresh
                  \<lparr>se_ID = fresh, se_Name = name, se_ClientID = clientID, se_RoomID = roomID,
                   se_CreatedAt = now, se_LastSeen = now, se_Alive = True\<rparr> sm)))"

definition UpdateClient :: "int \<Rightarrow> string \<Rightarrow> string \<Rightarrow> SessionManager \<Rightarrow> SessionManager" where
  "UpdateClient now sessionID clientID sm =
     (case map_of sm sessionID of
        None \<Rightarrow> sm
      | Some se \<Rightarrow> AList.update sessionID (se\<lparr>se_ClientID := clientID, se_LastSeen := now\<rparr>) sm)"

definition InvalidateSession :: "string \<Rightarrow> SessionManager \<Rightarrow> SessionManager" where
  "InvalidateSession sessionID sm =
     (case map_of sm sessionID of
        None \<Rightarrow> sm
      | Some se \<Rightarrow> AList.update sessionID (se\<lparr>se_Alive := False\<rparr>) sm)"

definition GetSessionByID :: "string \<Rightarrow> SessionManager \<Rightarrow> Session option" where
  "GetSessionByID sessionID sm =
     (case map_of sm sessionID of
        None \<Rightarrow> None
      | Some se \<Rightarrow> if se_Alive se then Some se else None)"

subsection \<open>Rooms\<close>

datatype RoomType = RoomTypeContinuous | RoomTypeScheduled

datatype GameStatus = StatusWaiting | StatusPlaying | StatusFinished

record Client =
  c_ID :: string
  c_Name :: string
  c_Player :: "nat option"
  c_SessionID :: string
  c_RoomID :: string

record GameRoom =
  room_id :: string
  room_name :: string
  roomType :: RoomType
  status :: GameStatus
  password :: string
  ownerID :: string
  maxPlayers :: int
  createdAt :: int
  game :: GameState
  clients :: "(string \<times> Client) list"
  deadPlayers :: "string set"
  turnTimer :: "string option"
  turnDeadline :: "int option"

record LeaderboardEntry =
  lb_PlayerName :: string
  lb_Won :: bool
  lb_Miles :: real
  lb_TurnCount :: int
  lb_GameMode :: string

record Server =
  rooms :: "string \<Rightarrow> GameRoom option"
  sessionManager :: SessionManager
  leaderboard :: "LeaderboardEntry list"

definition second :: int where
  "second = 1000000000"

definition turnTimeLimit :: int where
  "turnTimeLimit = 20 * second"

definition fortInterval :: int where
  "fortInterval = 3"

definition NewGameRoom :: "int \<Rightarrow> (nat \<Rightarrow> nat) \<Rightarrow> string \<Rightarrow> string \<Rightarrow> RoomType \<Rightarrow> GameRoom" where
  "NewGameRoom now seed rid rname rtype =
     \<lparr>room_id = rid, room_name = rname, roomType = rtype, status = StatusWaiting,
      password = [], ownerID = [], maxPlayers = 0, createdAt = now, game = NewGameState seed,
      clients = [], deadPlayers = {}, turnTimer = None, turnDeadline = None\<rparr>"

definition NewServer :: "int \<Rightarrow> (nat \<Rightarrow> nat) \<Rightarrow> Server" where
  "NewServer now seed =
     \<lparr>rooms = (\<lambda>_. None)(''continuous'' \<mapsto>
                 NewGameRoom now seed ''continuous'' ''The Open Trail'' RoomTypeContinuous),
      sessionManager = [], leaderboard = []\<rparr>"

definition GetRoom :: "Server \<Rightarrow> string \<Rightarrow> GameRoom option" where
  "GetRoom s roomID = rooms s roomID"

definition putRoom :: "string \<Rightarrow> GameRoom \<Rightarrow> Server \<Rightarrow> Server" where
  "putRoom roomID room s = s\<lparr>rooms := (rooms s)(roomID \<mapsto> room)\<rparr>"

definition initRoomResources :: "GameRoom \<Rightarrow> GameRoom" where
  "initRoomResources room =
     room\<lparr>game := (game room)\<lparr>OxenCost := 220, Food := 100, Bullets := 50, Clothing := 20,
                               MiscSupplies := 10, Cash := 700, GameOver := False, Win := False,
                               CurrentPlayerIdx := 0\<rparr>\<rparr>"

definition StartTurnTimer :: "int \<Rightarrow> string \<Rightarrow> GameRoom \<Rightarrow> GameRoom" where
  "StartTurnTimer now playerID room =
     room\<lparr>turnDeadline := Some (now + turnTimeLimit), turnTimer := Some playerID\<rparr>"

definition CancelTurnTimer :: "GameRoom \<Rightarrow> GameRoom" where
  "CancelTurnTimer room = room\<lparr>turnTimer := None, turnDeadline := None\<rparr>"

definition transferOwnership :: "string \<Rightarrow> GameRoom \<Rightarrow> GameRoom" where
  "transferOwnership clientID room =
     (if ownerID room = clientID \<and> length (clients room) > 0
      then room\<lparr>ownerID := c_ID (snd (hd (clients room)))\<rparr> else room)"

subsection \<open>Joining and leaving\<close>

text \<open>
  \<^verbatim>\<open>AddClient\<close>. A scheduled room that is no longer waiting registers the client and
  returns before the search for an existing Player.
\<close>

definition AddClient_locked :: "int \<Rightarrow> Client \<Rightarrow> string \<Rightarrow> GameRoom \<Rightarrow> GameRoom" where
  "AddClient_locked now c roomID room =
     (let c1 = c\<lparr>c_RoomID := roomID\<rparr>;
          room1 = room\<lparr>clients := AList.update (c_ID c1) c1 (clients room)\<rparr>
      in if roomType room1 = RoomTypeScheduled \<and> status room1 \<noteq> StatusWaiting then room1
         else
           (let g = game room1;
                room2 =
                  (case find (\<lambda>q. p_ID (player g q) = c_ID c1 \<or> p_Name (player g q) = c_Name c1)
                          (Players g) of
                     Some existingPlayer \<Rightarrow>
                       room1\<lparr>game := set_player existingPlayer
                                       ((player g existingPlayer)\<lparr>p_ID := c_ID c1\<rparr>) g,
                             clients := AList.update (c_ID c1)
                                          (c1\<lparr>c_Player := Some existingPlayer\<rparr>) (clients room1)\<rparr>
                   | None \<Rightarrow>
                       (let (np, g1) = AddPlayer now (c_Name c1) PlayerTypeHuman g;
                            g2 = set_player np ((player g1 np)\<lparr>p_ID := c_ID c1\<rparr>) g1;
                            room1a = room1\<lparr>game := g2,
                                           clients := AList.update (c_ID c1)
                                                        (c1\<lparr>c_Player := Some np\<rparr>) (clients room1)\<rparr>
                        in if roomType room1a = RoomTypeContinuous \<and> TurnNumber g2 = 0
                              \<and> length (clients room1a) = 1
                           then (initRoomResources room1a)\<lparr>status := StatusPlaying\<rparr>
                           else room1a))
            in if GetCurrentPlayer (game room2) = None \<and> length (Players (game room2)) > 0
               then room2\<lparr>game := (game room2)\<lparr>CurrentPlayerIdx := 0\<rparr>\<rparr>
               else room2))"

definition AddClient :: "int \<Rightarrow> Client \<Rightarrow> string \<Rightarrow> Server \<Rightarrow> Server" where
  "AddClient now c roomID s =
     (case GetRoom s roomID of
        None \<Rightarrow> s
      | Some room \<Rightarrow>
          (let s1 = (if c_SessionID c \<noteq> []
                     then s\<lparr>sessionManager :=
                              UpdateClient now (c_SessionID c) (c_ID c) (sessionManager s)\<rparr>
                     else s)
           in putRoom roomID (AddClient_locked now c roomID room) s1))"

definition RemoveClient_locked :: "string \<Rightarrow> GameRoom \<Rightarrow> GameRoom" where
  "RemoveClient_locked clientID room =
     (case map_of (clients room) clientID of
        None \<Rightarrow> room
      | Some c \<Rightarrow>
          transferOwnership clientID (room\<lparr>clients := AList.delete clientID (clients room)\<rparr>))"

definition RemoveClient :: "string \<Rightarrow> string \<Rightarrow> Server \<Rightarrow> Server" where
  "RemoveClient clientID roomID s =
     (case GetRoom s roomID of
        None \<Rightarrow> s
      | Some room \<Rightarrow> putRoom roomID (RemoveClient_locked clientID room) s)"

text \<open>
  The roster loop shared by \<^verbatim>\<open>LogoutClient\<close> and \<^verbatim>\<open>KickClient\<close>: the first Player
  with the id is cut out of the roster, and the current index goes back to 0 only when
  it has fallen off the end.
\<close>

definition removeAt :: "nat \<Rightarrow> 'a list \<Rightarrow> 'a list" where
  "removeAt i xs = take i xs @ drop (Suc i) xs"

definition reclampIdx :: "GameState \<Rightarrow> GameState" where
  "reclampIdx g =
     (if CurrentPlayerIdx g \<ge> length (Players g) \<and> length (Players g) > 0
      then g\<lparr>CurrentPlayerIdx := 0\<rparr> else g)"

definition wasCurrent :: "string \<Rightarrow> GameRoom \<Rightarrow> bool" where
  "wasCurrent clientID room =
     (case GetCurrentPlayer (game room) of
        None \<Rightarrow> False
      | Some cp \<Rightarrow> p_ID (player (game room) cp) = clientID)"

definition rearmAfterLeave :: "int \<Rightarrow> bool \<Rightarrow> GameRoom \<Rightarrow> GameRoom" where
  "rearmAfterLeave now wasCurrentPlayer room =
     (if wasCurrentPlayer \<and> status room = StatusPlaying \<and> \<not> GameOver (game room) then
        (let room1 = room\<lparr>game := (game room)\<lparr>TurnPhase := PhaseMainMenu\<rparr>\<rparr> in
         case GetCurrentPlayer (game room1) of
           None \<Rightarrow> room1
         | Some np \<Rightarrow>
             if p_Alive (player (game room1) np)
             then StartTurnTimer now (p_ID (player (game room1) np)) room1 else room1)
      else room)"

definition LogoutClient_locked :: "int \<Rightarrow> string \<Rightarrow> GameRoom \<Rightarrow> GameRoom" where
  "LogoutClient_locked now clientID room =
     (case map_of (clients room) clientID of
        None \<Rightarrow> room
      | Some c \<Rightarrow>
          (let wasCurrentPlayer = wasCurrent clientID room;
               g = game room;
               room1 =
                 (case firstIndex (\<lambda>q. p_ID (player g q) = clientID) (Players g) of
                    None \<Rightarrow> room
                  | Some i \<Rightarrow>
                      (let p = Players g ! i;
                           roomA =
                             (if \<not> p_Alive (player g p) \<and> status room = StatusPlaying then
                                (let roomB = (if maxPlayers room > 0
                                              then room\<lparr>maxPlayers := maxPlayers room - 1\<rparr>
                                              else room)
                                 in if roomType roomB \<noteq> RoomTypeContinuous
                                    then roomB\<lparr>deadPlayers := insert (c_Name c) (deadPlayers roomB)\<rparr>
                                    else roomB)
                              else room)
                       in roomA\<lparr>game := reclampIdx (g\<lparr>Players := removeAt i (Players g)\<rparr>)\<rparr>));
               room2 = transferOwnership clientID
                         (room1\<lparr>clients := AList.delete clientID (clients room1)\<rparr>)
           in rearmAfterLeave now wasCurrentPlayer room2))"

definition LogoutClient :: "int \<Rightarrow> string \<Rightarrow> string \<Rightarrow> string \<Rightarrow> Server \<Rightarrow> Server" where
  "LogoutClient now clientID sessionID roomID s =
     (case GetRoom s roomID of
        None \<Rightarrow> s
      | Some room \<Rightarrow>
          (let s1 = putRoom roomID (LogoutClient_locked now clientID room) s
           in s1\<lparr>sessionManager := InvalidateSession sessionID (sessionManager s1)\<rparr>))"

definition KickClient_locked :: "int \<Rightarrow> string \<Rightarrow> string \<Rightarrow> GameRoom \<Rightarrow> bool \<times> GameRoom" where
  "KickClient_locked now requesterID targetID room =
     (if ownerID room \<noteq> requesterID then (False, room)
      else if requesterID = targetID then (False, room)
      else
        (case map_of (clients room) targetID of
           None \<Rightarrow> (False, room)
         | Some c \<Rightarrow>
             (let wasCurrentPlayer = wasCurrent targetID room;
                  g = game room;
                  room1 =
                    (case firstIndex (\<lambda>q. p_ID (player g q) = targetID) (Players g) of
                       None \<Rightarrow> room
                     | Some i \<Rightarrow> room\<lparr>game := reclampIdx (g\<lparr>Players := removeAt i (Players g)\<rparr>)\<rparr>);
                  room2 = room1\<lparr>clients := AList.delete targetID (clients room1)\<rparr>
              in (True, rearmAfterLeave now wasCurrentPlayer room2))))"

definition KickClient :: "int \<Rightarrow> string \<Rightarrow> string \<Rightarrow> string \<Rightarrow> Server \<Rightarrow> bool \<times> Server" where
  "KickClient now roomID requesterID targetID s =
     (case GetRoom s roomID of
        None \<Rightarrow> (False, s)
      | Some room \<Rightarrow>
          (let (ok, room1) = KickClient_locked now requesterID targetID room
           in (ok, putRoom roomID room1 s)))"

subsection \<open>Garbage collection of rooms\<close>

definition minute :: int where
  "minute = 60 * second"

definition hour :: int where
  "hour = 60 * minute"

definition CleanupRoomIfEmpty :: "string \<Rightarrow> Server \<Rightarrow> Server" where
  "CleanupRoomIfEmpty roomID s =
     (if roomID = ''continuous'' then s
      else
        (case rooms s roomID of
           None \<Rightarrow> s
         | Some room \<Rightarrow>
             if length (clients room) = 0 then s\<lparr>rooms := (rooms s)(roomID := None)\<rparr> else s))"

text \<open>
  \<^verbatim>\<open>CleanupStaleRooms\<close> visits every room of the directory once; \<open>staleRoom\<close> is the
  decision of the loop body to delete the room it visits.
\<close>

definition staleRoom :: "int \<Rightarrow> string \<Rightarrow> GameRoom \<Rightarrow> bool" where
  "staleRoom now rid room =
     (if rid = ''continuous'' then False
      else if length (clients room) = 0 then True
      else if status room = StatusFinished \<and> now - createdAt room > 10 * minute then True
      else if status room = StatusWaiting \<and> now - createdAt room > 24 * hour then True
      else False)"

definition CleanupStaleRooms :: "int \<Rightarrow> Server \<Rightarrow> Server" where
  "CleanupStaleRooms now s =
     s\<lparr>rooms := (\<lambda>rid. case rooms s rid of
                          None \<Rightarrow> None
                        | Some room \<Rightarrow> if staleRoom now rid room then None else Some room)\<rparr>"

subsection \<open>Loot sites, turn advancement and the turn timer\<close>

definition createLootSite :: "int \<Rightarrow> Client \<Rightarrow> GameRoom \<Rightarrow> GameRoom" where
  "createLootSite now c room =
     (case c_Player c of
        None \<Rightarrow> room
      | Some _ \<Rightarrow>
          (let g = game room;
               lootSite =
                 \<lparr>ls_ID = ''loot-'' @ c_ID c @ ''-'' @ showInt (now div second),
                  ls_Mileage = Mileage g, ls_PlayerName = c_Name c, ls_Food = Food g,
                  ls_Bullets = Bullets g, ls_Clothing = Clothing g,
                  ls_MiscSupplies = MiscSupplies g, ls_Cash = Cash g, ls_OxenCost = OxenCost g,
                  ls_DateCreated = now, ls_IsLooted = False, ls_LootedBy = [], ls_LootedAt = 0\<rparr>
           in room\<lparr>game := g\<lparr>LootSites := LootSites g @ [lootSite]\<rparr>\<rparr>))"

text \<open>
  \<^verbatim>\<open>advanceTurnAndCheckFort\<close> calls \<^verbatim>\<open>NextTurn\<close>, flags the fort every third turn and
  arms the timer for the new current player.
\<close>

definition advanceTurnAndCheckFort :: "int \<Rightarrow> GameRoom \<Rightarrow> bool \<times> GameRoom" where
  "advanceTurnAndCheckFort now room =
     (let room1 = room\<lparr>game := NextTurn (game room)\<rparr> in
      case GetCurrentPlayer (game room1) of
        None \<Rightarrow> (False, room1)
      | Some np \<Rightarrow>
          if \<not> p_Alive (player (game room1) np) \<or> GameOver (game room1) then (False, room1)
          else
            (let fortTriggered = (TurnNumber (game room1) > 0
                                   \<and> TurnNumber (game room1) mod fortInterval = 0);
                 room2 = (if fortTriggered
                          then room1\<lparr>game := (game room1)\<lparr>FortAvailable := True\<rparr>\<rparr> else room1)
             in (fortTriggered, StartTurnTimer now (p_ID (player (game room2) np)) room2)))"

definition modeLabel :: "GameRoom \<Rightarrow> string" where
  "modeLabel room = (if roomType room = RoomTypeScheduled then ''party'' else ''continuous'')"

text \<open>One leaderboard entry for every client of the room that has a Player.\<close>

definition recordAll :: "GameRoom \<Rightarrow> LeaderboardEntry list \<Rightarrow> LeaderboardEntry list" where
  "recordAll room lb =
     lb @ map (\<lambda>(k, cl). \<lparr>lb_PlayerName = c_Name cl, lb_Won = Win (game room),
                          lb_Miles = Mileage (game room), lb_TurnCount = TurnNumber (game room),
                          lb_GameMode = modeLabel room\<rparr>)
            (filter (\<lambda>(k, cl). c_Player cl \<noteq> None) (clients room))"

text \<open>
  \<^verbatim>\<open>handleTurnTimeout(room, expectedPlayerID)\<close>, the callback of the turn timer. The
  first component says whether the callback goes on to broadcast (phase 2).
\<close>

definition handleTurnTimeout ::
  "int \<Rightarrow> string \<Rightarrow> GameRoom \<Rightarrow> LeaderboardEntry list
     \<Rightarrow> bool \<times> GameRoom \<times> LeaderboardEntry list" where
  "handleTurnTimeout now expectedPlayerID room lb =
     (case GetCurrentPlayer (game room) of
        None \<Rightarrow> (False, room, lb)
      | Some current \<Rightarrow>
          if p_ID (player (game room) current) \<noteq> expectedPlayerID \<or> GameOver (game room)
             \<or> status room \<noteq> StatusPlaying \<or> \<not> p_Alive (player (game room) current)
          then (False, room, lb)
          else
            (let room1 = room\<lparr>game := DamageRandomMember current 999 (game room)\<rparr>;
                 g1 = game room1;
                 room2 =
                   (if \<not> p_Alive (player g1 current) \<and> roomType room1 = RoomTypeContinuous then
                      (case find (\<lambda>(k, cl). case c_Player cl of
                                              None \<Rightarrow> False
                                            | Some q \<Rightarrow> p_ID (player g1 q) = p_ID (player g1 current))
                              (clients room1) of
                         None \<Rightarrow> room1
                       | Some (k, cl) \<Rightarrow> createLootSite now cl room1)
                    else room1);
                 room3 = room2\<lparr>game := (game room2)\<lparr>TurnPhase := PhaseMainMenu\<rparr>\<rparr>
             in if GameOver (game room3)
                then (True, room3\<lparr>status := StatusFinished, turnDeadline := None\<rparr>,
                      recordAll room3 lb)
                else (True, snd (advanceTurnAndCheckFort now room3), lb)))"

subsection \<open>Requests\<close>

text \<open>The end of a resolved action: a finished engine closes the room, else the turn moves.\<close>

definition finishOrAdvance ::
  "int \<Rightarrow> GameRoom \<Rightarrow> LeaderboardEntry list \<Rightarrow> GameRoom \<times> LeaderboardEntry list" where
  "finishOrAdvance now room lb =
     (if GameOver (game room)
      then (CancelTurnTimer (room\<lparr>status := StatusFinished\<rparr>), recordAll room lb)
      else (snd (advanceTurnAndCheckFort now room), lb))"

definition lootForDead :: "int \<Rightarrow> GameRoom \<Rightarrow> GameRoom" where
  "lootForDead now room =
     fold (\<lambda>(k, cl) r.
             case c_Player cl of
               None \<Rightarrow> r
             | Some q \<Rightarrow>
                 if \<not> p_Alive (player (game r) q)
                    \<and> \<not> list_ex (\<lambda>site. ls_PlayerName site = c_Name cl \<and> \<not> ls_IsLooted site)
                          (LootSites (game r))
                 then createLootSite now cl r else r)
       (clients room) room"

definition startRoom :: "int \<Rightarrow> GameRoom \<Rightarrow> GameRoom" where
  "startRoom now room =
     (let room1 = initRoomResources room;
          room2 = room1\<lparr>game := (game room1)\<lparr>TurnNumber := 1, GameOver := False\<rparr>,
                        status := StatusPlaying\<rparr>
      in case GetCurrentPlayer (game room2) of
           None \<Rightarrow> room2
         | Some cp \<Rightarrow> StartTurnTimer now (p_ID (player (game room2) cp)) room2)"

text \<open>
  \<^verbatim>\<open>Server.HandleAction\<close>. "start" and "start_game" make the same assignments in
  another order. Any client whose Player is alive may act; the turn is not checked here.
\<close>

definition HandleAction_locked ::
  "int \<Rightarrow> string \<Rightarrow> string \<Rightarrow> GameRoom \<Rightarrow> LeaderboardEntry list
     \<Rightarrow> reply \<times> GameRoom \<times> LeaderboardEntry list" where
  "HandleAction_locked now clientID action room lb =
     (if action = ''start'' then (JourneyBegins, startRoom now room, lb)
      else if action = ''start_game'' then (WagonTrainDeparts, startRoom now room, lb)
      else
        (case map_of (clients room) clientID of
           None \<Rightarrow> (NoReply, room, lb)
         | Some c \<Rightarrow>
             (case c_Player c of
                None \<Rightarrow> (PlayerNotFound, room, lb)
              | Some p \<Rightarrow>
                  if \<not> p_Alive (player (game room) p) then (Spectating, room, lb)
                  else
                    (let (result, g1) = ProcessTurn (Some p) action (game room);
                         room1 = room\<lparr>game := g1\<rparr>;
                         room2 = (if \<not> p_Alive (player g1 p) \<and> roomType room1 = RoomTypeContinuous
                                  then createLootSite now c room1 else room1)
                     in if GameOver (game room2) then
                          (let lb1 = recordAll room2 lb;
                               room3 = (if roomType room2 = RoomTypeContinuous
                                        then lootForDead now room2 else room2)
                           in (result, CancelTurnTimer (room3\<lparr>status := StatusFinished\<rparr>), lb1))
                        else if TurnPhase (game room2) \<noteq> PhaseFort
                                \<and> TurnPhase (game room2) \<noteq> PhaseHunting
                                \<and> TurnPhase (game room2) \<noteq> PhaseRiders
                        then (result, snd (advanceTurnAndCheckFort now room2), lb)
                        else (result, room2, lb)))))"

text \<open>The turn check shared by the fort, loot, hunt and rider requests.\<close>

definition isCurrent :: "Client \<Rightarrow> GameRoom \<Rightarrow> bool" where
  "isCurrent c room =
     (case GetCurrentPlayer (game room) of
        None \<Rightarrow> False
      | Some cur \<Rightarrow> p_ID (player (game room) cur) = c_ID c)"

definition HandleFortBuy_locked :: "string \<Rightarrow> string \<Rightarrow> int \<Rightarrow> GameRoom \<Rightarrow> reply \<times> GameRoom" where
  "HandleFortBuy_locked clientID item qty room =
     (case map_of (clients room) clientID of
        None \<Rightarrow> (NoReply, room)
      | Some c \<Rightarrow>
          if \<not> isCurrent c room then (NotYourTurn, room)
          else (let (r, g1) = HandleFortBuy item qty (game room) in (r, room\<lparr>game := g1\<rparr>)))"

definition HandleFortSell_locked :: "string \<Rightarrow> string \<Rightarrow> int \<Rightarrow> GameRoom \<Rightarrow> reply \<times> GameRoom" where
  "HandleFortSell_locked clientID item qty room =
     (case map_of (clients room) clientID of
        None \<Rightarrow> (NoReply, room)
      | Some c \<Rightarrow>
          if \<not> isCurrent c room then (NotYourTurn, room)
          else (let (r, g1) = HandleFortSell item qty (game room) in (r, room\<lparr>game := g1\<rparr>)))"

definition HandleFortEnter_locked :: "string \<Rightarrow> GameRoom \<Rightarrow> reply \<times> GameRoom" where
  "HandleFortEnter_locked clientID room =
     (case map_of (clients room) clientID of
        None \<Rightarrow> (NoReply, room)
      | Some c \<Rightarrow>
          if \<not> isCurrent c room then (NotYourTurn, room)
          else if \<not> FortAvailable (game room) then (NoFortHere, room)
          else
            (let g = game room;
                 g1 = ClampResources (g\<lparr>TurnPhase := PhaseFort, Mileage := Mileage g - 45\<rparr>)
             in (ArrivedAtFort, CancelTurnTimer (room\<lparr>game := g1\<rparr>))))"

definition HandleFortLeave_locked :: "int \<Rightarrow> string \<Rightarrow> GameRoom \<Rightarrow> reply \<times> GameRoom" where
  "HandleFortLeave_locked now clientID room =
     (case map_of (clients room) clientID of
        None \<Rightarrow> (NoReply, room)
      | Some c \<Rightarrow>
          if \<not> isCurrent c room then (NotYourTurn, room)
          else
            (let (r, g1) = HandleFortLeave (game room);
                 room1 = room\<lparr>game := g1\<lparr>FortAvailable := False\<rparr>\<rparr>
             in (r, snd (advanceTurnAndCheckFort now room1))))"

text \<open>
  \<^verbatim>\<open>HandleLootClaim\<close>: the first site with the id decides the request; the range check
  comes before the check of the looted flag.
\<close>

definition claimSite :: "int \<Rightarrow> Client \<Rightarrow> nat \<Rightarrow> GameRoom \<Rightarrow> reply \<times> GameRoom" where
  "claimSite now c i room =
     (let g = game room;
          site = LootSites g ! i
      in if Mileage g < ls_Mileage site - 50 \<or> Mileage g > ls_Mileage site + 50
         then (TooFar, room)
         else if ls_IsLooted site then (AlreadyScavenged (ls_LootedBy site), room)
         else
           (let site1 = site\<lparr>ls_IsLooted := True, ls_LootedBy := c_Name c, ls_LootedAt := now\<rparr>;
                g1 = g\<lparr>Food := Food g + ls_Food site, Bullets := Bullets g + ls_Bullets site,
                        Clothing := Clothing g + ls_Clothing site,
                        MiscSupplies := MiscSupplies g + ls_MiscSupplies site,
                        Cash := Cash g + ls_Cash site, OxenCost := OxenCost g + ls_OxenCost site,
                        LootSites := (LootSites g)[i := site1]\<rparr>
            in (Looted site1, room\<lparr>game := ClampResources g1\<rparr>)))"

definition HandleLootClaim_locked ::
  "int \<Rightarrow> string \<Rightarrow> string \<Rightarrow> GameRoom \<Rightarrow> reply \<times> GameRoom" where
  "HandleLootClaim_locked now clientID lootSiteID room =
     (case map_of (clients room) clientID of
        None \<Rightarrow> (NoReply, room)
      | Some c \<Rightarrow>
          if \<not> isCurrent c room then (NotYourTurn, room)
          else if roomType room \<noteq> RoomTypeContinuous then (LootOnlyContinuous, room)
          else
            (case firstIndex (\<lambda>site. ls_ID site = lootSiteID) (LootSites (game room)) of
               None \<Rightarrow> (LootNotFound, room)
             | Some i \<Rightarrow> claimSite now c i room))"

definition HandleHuntShoot_locked ::
  "int \<Rightarrow> string \<Rightarrow> int \<Rightarrow> GameRoom \<Rightarrow> LeaderboardEntry list
     \<Rightarrow> reply \<times> GameRoom \<times> LeaderboardEntry list" where
  "HandleHuntShoot_locked now clientID reactionTimeMs room lb =
     (case map_of (clients room) clientID of
        None \<Rightarrow> (NoReply, room, lb)
      | Some c \<Rightarrow>
          if \<not> isCurrent c room then (NotYourTurn, room, lb)
          else if TurnPhase (game room) \<noteq> PhaseHunting then (NotHunting, room, lb)
          else
            (case c_Player c of
               None \<Rightarrow> (PlayerNotFound, room, lb)
             | Some p \<Rightarrow>
                 (let (result, g1) = HandleHuntShoot (Some p) reactionTimeMs (game room);
                      (room1, lb1) = finishOrAdvance now (room\<lparr>game := g1\<rparr>) lb
                  in (result, room1, lb1))))"

text \<open>\<^verbatim>\<open>Server.HandleRiderTactic\<close>: a tactic outside 1..4 becomes tactic 3.\<close>

definition HandleRiderTactic_locked ::
  "int \<Rightarrow> string \<Rightarrow> int \<Rightarrow> GameRoom \<Rightarrow> LeaderboardEntry list
     \<Rightarrow> reply \<times> GameRoom \<times> LeaderboardEntry list" where
  "HandleRiderTactic_locked now clientID tactic room lb =
     (case map_of (clients room) clientID of
        None \<Rightarrow> (NoReply, room, lb)
      | Some c \<Rightarrow>
          if \<not> isCurrent c room then (NotYourTurn, room, lb)
          else if TurnPhase (game room) \<noteq> PhaseRiders then (NoRiders, room, lb)
          else
            (case c_Player c of
               None \<Rightarrow> (PlayerNotFound, room, lb)
             | Some p \<Rightarrow>
                 (let tactic1 = (if tactic < 1 \<or> tactic > 4 then 3 else tactic);
                      (result, g1) = HandleRiderTactic (Some p) tactic1 (game room);
                      (room1, lb1) = finishOrAdvance now (room\<lparr>game := g1\<rparr>) lb
                  in (result, room1, lb1))))"

text \<open>The wrappers: look the room up, run the critical section, store the results.\<close>

definition inRoom ::
  "string \<Rightarrow> (GameRoom \<Rightarrow> LeaderboardEntry list \<Rightarrow> reply \<times> GameRoom \<times> LeaderboardEntry list)
     \<Rightarrow> Server \<Rightarrow> reply \<times> Server" where
  "inRoom roomID body s =
     (case GetRoom s roomID of
        None \<Rightarrow> (NoReply, s)
      | Some room \<Rightarrow>
          (let (r, room1, lb1) = body room (leaderboard s)
           in (r, (putRoom roomID room1 s)\<lparr>leaderboard := lb1\<rparr>)))"

definition Server_HandleAction :: "int \<Rightarrow> string \<Rightarrow> string \<Rightarrow> string \<Rightarrow> Server \<Rightarrow> reply \<times> Server" where
  "Server_HandleAction now clientID roomID action =
     inRoom roomID (HandleAction_locked now clientID action)"

definition Server_HandleFortBuy :: "string \<Rightarrow> string \<Rightarrow> string \<Rightarrow> int \<Rightarrow> Server \<Rightarrow> reply \<times> Server" where
  "Server_HandleFortBuy clientID roomID item qty =
     inRoom roomID (\<lambda>room lb. let (r, room1) = HandleFortBuy_locked clientID item qty room
                              in (r, room1, lb))"

definition Server_HandleFortSell :: "string \<Rightarrow> string \<Rightarrow> string \<Rightarrow> int \<Rightarrow> Server \<Rightarrow> reply \<times> Server" where
  "Server_HandleFortSell clientID roomID item qty =
     inRoom roomID (\<lambda>room lb. let (r, room1) = HandleFortSell_locked clientID item qty room
                              in (r, room1, lb))"

definition Server_HandleFortEnter :: "string \<Rightarrow> string \<Rightarrow> Server \<Rightarrow> reply \<times> Server" where
  "Server_HandleFortEnter clientID roomID =
     inRoom roomID (\<lambda>room lb. let (r, room1) = HandleFortEnter_locked clientID room
                              in (r, room1, lb))"

definition Server_HandleFortLeave :: "int \<Rightarrow> string \<Rightarrow> string \<Rightarrow> Server \<Rightarrow> reply \<times> Server" where
  "Server_HandleFortLeave now clientID roomID =
     inRoom roomID (\<lambda>room lb. let (r, room1) = HandleFortLeave_locked now clientID room
                              in (r, room1, lb))"

definition HandleLootClaim :: "int \<Rightarrow> string \<Rightarrow> string \<Rightarrow> string \<Rightarrow> Server \<Rightarrow> reply \<times> Server" where
  "HandleLootClaim now clientID roomID lootSiteID =
     inRoom roomID (\<lambda>room lb. let (r, room1) = HandleLootClaim_locked now clientID lootSiteID room
                              in (r, room1, lb))"

definition Server_HandleHuntShoot :: "int \<Rightarrow> string \<Rightarrow> string \<Rightarrow> int \<Rightarrow> Server \<Rightarrow> reply \<times> Server" where
  "Server_HandleHuntShoot now clientID roomID reactionTimeMs =
     inRoom roomID (HandleHuntShoot_locked now clientID reactionTimeMs)"

definition Server_HandleRiderTactic :: "int \<Rightarrow> string \<Rightarrow> string \<Rightarrow> int \<Rightarrow> Server \<Rightarrow> reply \<times> Server" where
  "Server_HandleRiderTactic now clientID roomID tactic =
     inRoom roomID (HandleRiderTactic_locked now clientID tactic)"

section \<open>Notions used by the properties\<close>

text \<open>The resource invariant: every resource and the mileage are at least 0.\<close>

definition resourcesOK :: "GameState \<Rightarrow> bool" where
  "resourcesOK g =
     (0 \<le> Food g \<and> 0 \<le> Bullets g \<and> 0 \<le> Clothing g \<and> 0 \<le> MiscSupplies g
      \<and> 0 \<le> Cash g \<and> 0 \<le> Mileage g)"

text \<open>
  The fields that only the phase logic, the win check and the fort flag write; the
  hazards of a turn leave them alone.
\<close>

definition flags :: "GameState \<Rightarrow> TurnPhase \<times> bool \<times> int option \<times> int \<times> bool" where
  "flags g = (TurnPhase g, Win g, FinalDate g, PendingEatingLevel g, FortAvailable g)"

text \<open>
  A game of one human player, Ann, after five quiet weeks, with the given mileage, food
  and bullets; every raw draw of its random source is 0.
\<close>

definition soloGame :: "real \<Rightarrow> real \<Rightarrow> real \<Rightarrow> GameState" where
  "soloGame mileage food bullets =
     \<lparr>Heap = [\<lparr>p_ID = ''a'', p_Name = ''Ann'', p_Type = PlayerTypeHuman, p_Party = newParty,
               p_Connected = True, p_ShootingRank = 3, p_Alive = True\<rparr>],
      Players = [0], CurrentPlayerIdx = 0, TurnNumber = 6, Week = 2, Day = 1,
      Mileage = mileage, Food = food, Bullets = bullets, Clothing = 20, MiscSupplies = 10,
      Cash = 700, OxenCost = 220, DistanceTraveled = 0, TurnPhase = PhaseMainMenu,
      EventLog = [], GameOver = False, Win = False, FinalDate = None, Rand = (\<lambda>_. 0),
      RandPos = 0, PendingRiderHostile = False, PendingEatingLevel = 0, PendingRiderCount = 0,
      HuntWord = [], FortAvailable = False, LootSites = []\<rparr>"

text \<open>
  A turn timer bound to \<open>expectedPlayerID\<close> is stale when the room has no current
  player or one with another id, or the room is not playing, or the engine is finished,
  or no player of the roster with that id is alive.
\<close>

definition staleTimer :: "string \<Rightarrow> GameRoom \<Rightarrow> bool" where
  "staleTimer expectedPlayerID room =
     ((case GetCurrentPlayer (game room) of
         None \<Rightarrow> True
       | Some cur \<Rightarrow> p_ID (player (game room) cur) \<noteq> expectedPlayerID)
      \<or> status room \<noteq> StatusPlaying
      \<or> GameOver (game room)
      \<or> \<not> list_ex (\<lambda>q. p_ID (player (game room) q) = expectedPlayerID
                          \<and> p_Alive (player (game room) q)) (Players (game room)))"

text \<open>
  Ann's room: the room of one client, Ann, bound to the first Player of the game; a
  server whose directory holds one room; and the room in which Ann's turn has paused for
  riders.
\<close>

definition ann :: Client where
  "ann = \<lparr>c_ID = ''a'', c_Name = ''Ann'', c_Player = Some 0, c_SessionID = [], c_RoomID = ''r1''\<rparr>"

definition soloRoom :: "RoomType \<Rightarrow> GameStatus \<Rightarrow> GameState \<Rightarrow> GameRoom" where
  "soloRoom rtype st g =
     \<lparr>room_id = ''r1'', room_name = ''Party'', roomType = rtype, status = st, password = [],
      ownerID = ''a'', maxPlayers = 0, createdAt = 0, game = g, clients = [(''a'', ann)],
      deadPlayers = {}, turnTimer = None, turnDeadline = None\<rparr>"

definition oneRoomServer :: "GameRoom \<Rightarrow> Server" where
  "oneRoomServer room =
     \<lparr>rooms = (\<lambda>_. None)(room_id room \<mapsto> room), sessionManager = [], leaderboard = []\<rparr>"

definition ridersRoom :: GameRoom where
  "ridersRoom =
     soloRoom RoomTypeScheduled StatusPlaying
       (snd (ProcessTurn (Some 0) ''continue'' (soloGame 315 10 50)))"

text \<open>The stock of a fort item, and the word for it in the answer to a sale.\<close>

definition stock :: "string \<Rightarrow> GameState \<Rightarrow> real" where
  "stock item g =
     (if item = ''food'' then Food g else if item = ''bullets'' then Bullets g
      else if item = ''clothing'' then Clothing g else MiscSupplies g)"

definition stockWord :: "string \<Rightarrow> string" where
  "stockWord item = (if item = ''misc'' then ''supplies'' else item)"

text \<open>
  A loot site left by Bob at mileage 0 and already claimed by Cy, and Ann's continuous
  room with one loot site.
\<close>

definition lootedSite :: LootSite where
  "lootedSite =
     \<lparr>ls_ID = ''loot-b-1'', ls_Mileage = 0, ls_PlayerName = ''Bob'', ls_Food = 40,
      ls_Bullets = 10, ls_Clothing = 5, ls_MiscSupplies = 2, ls_Cash = 30, ls_OxenCost = 200,
      ls_DateCreated = 1, ls_IsLooted = True, ls_LootedBy = ''Cy'', ls_LootedAt = 2\<rparr>"

definition lootRoom :: "real \<Rightarrow> LootSite \<Rightarrow> GameRoom" where
  "lootRoom mileage site =
     soloRoom RoomTypeContinuous StatusPlaying ((soloGame mileage 10 50)\<lparr>LootSites := [site]\<rparr>)"

text \<open>
  A client as the hub hands it to \<^verbatim>\<open>AddClient\<close>; the id of the room's current player,
  as \<^verbatim>\<open>GetState\<close> reports it; and the turn-holder invariant: in a playing room the
  engine is finished or the current player is an alive human.
\<close>

definition joining :: "string \<Rightarrow> string \<Rightarrow> Client" where
  "joining cid name =
     \<lparr>c_ID = cid, c_Name = name, c_Player = None, c_SessionID = [], c_RoomID = []\<rparr>"

definition currentPlayerID :: "GameRoom \<Rightarrow> string" where
  "currentPlayerID room =
     (case GetCurrentPlayer (game room) of
        None \<Rightarrow> []
      | Some q \<Rightarrow> p_ID (player (game room) q))"

definition turnHolderOK :: "GameRoom \<Rightarrow> bool" where
  "turnHolderOK room =
     (if status room = StatusPlaying then
        (GameOver (game room)
         \<or> (case GetCurrentPlayer (game room) of
               None \<Rightarrow> False
             | Some q \<Rightarrow> p_Type (player (game room) q) = PlayerTypeHuman
                          \<and> p_Alive (player (game room) q)))
      else True)"

text \<open>
  Rooms built by the code: a scheduled room that the given clients join in turn and
  that is then started; that room of Bob and Ann after Bob's turn timer has fired; and
  a scheduled room of two clients with any clock, random source and room id.
\<close>

definition startedParty :: "Client list \<Rightarrow> GameRoom" where
  "startedParty cs =
     fst (snd (HandleAction_locked 0 [] ''start''
       (fold (\<lambda>c room. AddClient_locked 0 c ''r1'' room) cs
          (NewGameRoom 0 (\<lambda>_. 0) ''r1'' ''Party'' RoomTypeScheduled)) []))"

definition bobTimedOut :: GameRoom where
  "bobTimedOut =
     fst (snd (handleTurnTimeout 20000000000 ''b''
                 (startedParty [joining ''b'' ''Bob'', joining ''a'' ''Ann'']) []))"

definition partyOfTwo :: "int \<Rightarrow> (nat \<Rightarrow> nat) \<Rightarrow> string \<Rightarrow> Client \<Rightarrow> Client \<Rightarrow> GameRoom" where
  "partyOfTwo now seed rid cA cB =
     fst (snd (HandleAction_locked now (c_ID cA) ''start''
       (AddClient_locked now cB rid
          (AddClient_locked now cA rid (NewGameRoom now seed rid ''Party'' RoomTypeScheduled)))
       []))"

text \<open>The value that \<^verbatim>\<open>Float64\<close> makes of the raw draw at a position.\<close>

definition draw :: "(nat \<Rightarrow> nat) \<Rightarrow> nat \<Rightarrow> real" where
  "draw r i = real (r i mod 2 ^ 53) / 2 ^ 53"

text \<open>
  A random source given by its first raw draws; every later raw draw is 0. A raw draw of
  \<open>2 ^ 52\<close> makes \<^verbatim>\<open>Float64\<close> return 1/2, \<open>7 * 2 ^ 50\<close> 7/8, \<open>3 * 2 ^ 50\<close> 3/8 and \<open>9 * 2 ^ 47\<close> 9/64.
\<close>

fun seq :: "nat list \<Rightarrow> nat \<Rightarrow> nat" where
  "seq [] i = 0"
| "seq (x # xs) 0 = x"
| "seq (x # xs) (Suc i) = seq xs i"





section \<open>Frame lemmas\<close>

text \<open>The hazards, the rider logic and the travel steps keep the flags.\<close>

lemma flags_upd [simp]:
  "flags (g\<lparr>Heap := a1\<rparr>) = flags g"
  "flags (g\<lparr>Players := a2\<rparr>) = flags g"
  "flags (g\<lparr>CurrentPlayerIdx := a3\<rparr>) = flags g"
  "flags (g\<lparr>TurnNumber := a4\<rparr>) = flags g"
  "flags (g\<lparr>Week := a5\<rparr>) = flags g"
  "flags (g\<lparr>Mileage := b1\<rparr>) = flags g"
  "flags (g\<lparr>Food := b2\<rparr>) = flags g"
  "flags (g\<lparr>Bullets := b3\<rparr>) = flags g"
  "flags (g\<lparr>Clothing := b4\<rparr>) = flags g"
  "flags (g\<lparr>MiscSupplies := b5\<rparr>) = flags g"
  "flags (g\<lparr>Cash := b6\<rparr>) = flags g"
  "flags (g\<lparr>OxenCost := b7\<rparr>) = flags g"
  "flags (g\<lparr>GameOver := c1\<rparr>) = flags g"
  "flags (g\<lparr>RandPos := c2\<rparr>) = flags g"
  "flags (g\<lparr>PendingRiderHostile := c3\<rparr>) = flags g"
  "flags (g\<lparr>PendingRiderCount := c4\<rparr>) = flags g"
  "flags (g\<lparr>HuntWord := c5\<rparr>) = flags g"
  "flags (g\<lparr>LootSites := c6\<rparr>) = flags g"
  by (simp_all add: flags_def)

lemma flags_Float64 [simp]: "flags (snd (Float64 g)) = flags g"
  by (simp add: Float64_def)

lemma flags_Intn [simp]: "flags (snd (Intn n g)) = flags g"
  by (simp add: Intn_def)

lemma flags_set_player [simp]: "flags (set_player p v g) = flags g"
  by (simp add: set_player_def)

lemma flags_CheckAllPlayersDead [simp]: "flags (CheckAllPlayersDead g) = flags g"
  by (simp add: CheckAllPlayersDead_def)

lemma flags_DamagePartyMember [simp]: "flags (DamagePartyMember p i a g) = flags g"
  by (simp add: DamagePartyMember_def Let_def)

lemma flags_DamageRandomMember [simp]: "flags (DamageRandomMember p a g) = flags g"
  by (simp add: DamageRandomMember_def Let_def split_def)

lemma flags_ClampResources [simp]: "flags (ClampResources g) = flags g"
  by (simp add: ClampResources_def)

lemma flags_HandleRiverCrossing [simp]: "flags (HandleRiverCrossing p g) = flags g"
  by (simp add: HandleRiverCrossing_def Let_def split_def)

lemma flags_HandleIllness [simp]: "flags (HandleIllness p l g) = flags g"
  by (simp add: HandleIllness_def Let_def split_def)

lemma flags_HandleEatingResult [simp]: "flags (HandleEatingResult p l g) = flags g"
  by (simp add: HandleEatingResult_def)

lemma flags_getShootingTime [simp]: "flags (snd (getShootingTime ty rk g)) = flags g"
  by (simp add: getShootingTime_def Let_def split_def)

lemma flags_CheckRiders [simp]: "flags (snd (CheckRiders g)) = flags g"
  by (simp add: CheckRiders_def Let_def split_def)

lemma flags_riderSwitch [simp]: "flags (snd (riderSwitch p t g)) = flags g"
  by (simp add: riderSwitch_def Let_def split_def)

lemma flags_ResolveRiderTactic [simp]: "flags (ResolveRiderTactic p t g) = flags g"
  by (simp add: ResolveRiderTactic_def Let_def split_def)

lemma flags_cpuChooseTactic [simp]: "flags (snd (cpuChooseTactic h g)) = flags g"
  by (simp add: cpuChooseTactic_def Let_def split_def)

lemma flags_events:
  "flags (eventWagonBreakdown p g) = flags g"
  "flags (eventOxInjury p g) = flags g"
  "flags (eventDaughterBrokenArm p g) = flags g"
  "flags (eventOxWandersOff p g) = flags g"
  "flags (eventSonGetsLost p g) = flags g"
  "flags (eventUnsafeWater p g) = flags g"
  "flags (eventHeavyRains p g) = flags g"
  "flags (eventBandits p g) = flags g"
  "flags (eventFireInWagon p g) = flags g"
  "flags (eventLostInFog p g) = flags g"
  "flags (eventSnakeBite p g) = flags g"
  "flags (eventWagonSwamped p g) = flags g"
  "flags (eventWildAnimals p g) = flags g"
  "flags (eventHailStorm p g) = flags g"
  "flags (eventBadFood p g) = flags g"
  "flags (eventAbandonedWagon p g) = flags g"
  by (simp_all add: eventWagonBreakdown_def eventOxInjury_def eventDaughterBrokenArm_def
      eventOxWandersOff_def eventSonGetsLost_def eventUnsafeWater_def eventHeavyRains_def
      eventBandits_def eventFireInWagon_def eventLostInFog_def eventSnakeBite_def
      eventWagonSwamped_def eventWildAnimals_def eventHailStorm_def eventBadFood_def
      eventAbandonedWagon_def Let_def split_def)

lemma flags_HandleRandomEvent [simp]: "flags (HandleRandomEvent p g) = flags g"
  by (simp add: HandleRandomEvent_def Let_def split_def events_def flags_events)

lemma flags_HandleMountains [simp]: "flags (HandleMountains p g) = flags g"
  by (simp add: HandleMountains_def Let_def split_def)





lemma phase_flags: "TurnPhase g = fst (flags g)"
  by (simp add: flags_def)

lemma flags_fields:
  "flags a = flags b \<Longrightarrow>
     TurnPhase a = TurnPhase b \<and> Win a = Win b \<and> FinalDate a = FinalDate b
     \<and> PendingEatingLevel a = PendingEatingLevel b \<and> FortAvailable a = FortAvailable b"
  by (simp add: flags_def)

lemma fst_flags_final [simp]:
  "fst (flags (g\<lparr>Win := w\<rparr>)) = fst (flags g)"
  "fst (flags (g\<lparr>FinalDate := d\<rparr>)) = fst (flags g)"
  by (simp_all add: flags_def)

lemma phase_FinishTurn [simp]: "TurnPhase (FinishTurn p l g) = TurnPhase g"
  by (simp add: FinishTurn_def HandleFinalTurn_def phase_flags Let_def)

lemma phase_finishIfAlive [simp]: "TurnPhase (finishIfAlive p l g) = TurnPhase g"
  by (simp add: finishIfAlive_def)

lemma phase_ResolveRiderTactic [simp]: "TurnPhase (ResolveRiderTactic p t g) = TurnPhase g"
  using flags_fields [OF flags_ResolveRiderTactic] by blast

lemma phase_cpuChooseTactic [simp]: "TurnPhase (snd (cpuChooseTactic h g)) = TurnPhase g"
  using flags_fields [OF flags_cpuChooseTactic] by blast

lemma phase_CheckRiders [simp]: "TurnPhase (snd (CheckRiders g)) = TurnPhase g"
  using flags_fields [OF flags_CheckRiders] by blast

lemma GameOver_CheckRiders [simp]: "GameOver (snd (CheckRiders g)) = GameOver g"
  by (simp add: CheckRiders_def Float64_def Intn_def Let_def split_def)

lemma Heap_CheckRiders [simp]: "Heap (snd (CheckRiders g)) = Heap g"
  by (simp add: CheckRiders_def Float64_def Intn_def Let_def split_def)

section \<open>Suspending and resuming a turn\<close>



lemma Type_set_player:
  "p_Type v = p_Type (player g p) \<Longrightarrow> p_Type (player (set_player p v g) q) = p_Type (player g q)"
  by (cases "p < length (Heap g)")
    (auto simp: set_player_def player_def nth_list_update list_update_beyond)

lemma Heap_CheckAllPlayersDead [simp]: "Heap (CheckAllPlayersDead g) = Heap g"
  by (simp add: CheckAllPlayersDead_def)

lemma player_CheckAllPlayersDead [simp]: "player (CheckAllPlayersDead g) q = player g q"
  by (simp add: player_def)

lemma Type_DamagePartyMember [simp]:
  "p_Type (player (DamagePartyMember p i a g) q) = p_Type (player g q)"
  by (simp add: DamagePartyMember_def Let_def Type_set_player)

lemma Type_starve_fold:
  "p_Type (player (fold (\<lambda>i s. if m_Alive (p_Party (player s p) ! i)
                               then DamagePartyMember p i 20 s else s) xs g) q)
     = p_Type (player g q)"
  by (induction xs arbitrary: g) simp_all

lemma Type_starve [simp]: "p_Type (player (starve p g) q) = p_Type (player g q)"
  by (simp add: starve_def Type_starve_fold)



subsection \<open>Evaluation of a turn that pauses for riders\<close>

lemmas pause_eval =
  ProcessTurn_def ContinueTravel_def starve_def eatAndTravel_def ridersAndFinish_def
  finishIfAlive_def CheckRiders_def HandleRiverCrossing_def Float64_def Intn_def
  DamagePartyMember_def player_def set_player_def newParty_def CheckAllPlayersDead_def Let_def

lemma soloGame_continue:
  "0 \<le> m \<Longrightarrow> m < 520 \<Longrightarrow>
   snd (ProcessTurn (Some 0) ''continue'' (soloGame m 10 50))
     = (soloGame (m + 80) (- 8) 50)
         \<lparr>Heap := [\<lparr>p_ID = ''a'', p_Name = ''Ann'', p_Type = PlayerTypeHuman,
                    p_Party = map (\<lambda>n. \<lparr>m_Name = n, m_Alive = True, m_Health = 80,
                                          m_Injured = True\<rparr>)
                                [''You'', ''Wife'', ''Son'', ''Daughter'', ''Baby''],
                    p_Connected = True, p_ShootingRank = 3, p_Alive = True\<rparr>],
          RandPos := 4, TurnPhase := PhaseRiders, PendingEatingLevel := 2,
          PendingRiderHostile := True, PendingRiderCount := 3\<rparr>"
  by (simp add: soloGame_def pause_eval)

lemma soloGame_hunt_short:
  "snd (ProcessTurn (Some 0) ''hunt'' (soloGame 315 100 49))
     = (soloGame 395 82 49)
         \<lparr>RandPos := 4, TurnPhase := PhaseRiders, PendingEatingLevel := 2,
          PendingRiderHostile := True, PendingRiderCount := 3\<rparr>
   \<and> fst (ProcessTurn (Some 0) ''hunt'' (soloGame 315 100 49)) = NotEnoughBullets"
  by (simp add: soloGame_def pause_eval)

subsection \<open>Evaluation of a rider resume past the mountain threshold\<close>

lemma seq_numeral [simp]: "seq (x # xs) (numeral k) = seq xs (pred_numeral k)"
  by (simp add: numeral_eq_Suc)











subsection \<open>Evaluation of a "continue" sent during the hunt pause\<close>













subsection \<open>What a resolution establishes\<close>

lemma resourcesOK_ClampResources: "resourcesOK (ClampResources g)"
  by (simp add: resourcesOK_def ClampResources_def clamp0_def)



lemma resourcesOK_ResolveRiderTactic: "resourcesOK (ResolveRiderTactic p tactic g)"
  by (simp add: ResolveRiderTactic_def split_def Let_def resourcesOK_ClampResources)







section \<open>The resource invariant\<close>

text \<open>
  Claim C1. Every resource and the mileage are at least 0 after every operation,
  also after one that returns early for riders. The code does not keep this: Ann's
  game at mileage 315 with 10 pounds of food satisfies the invariant, a "continue"
  pauses for riders, and the food is then -8, because the early return of
  \<^verbatim>\<open>ContinueTravel\<close> skips \<^verbatim>\<open>ClampResources\<close>.
\<close>

theorem riders_pause_returns_negative_food:
  "resourcesOK (soloGame 315 10 50)
   \<and> TurnPhase (snd (ProcessTurn (Some 0) ''continue'' (soloGame 315 10 50))) = PhaseRiders
   \<and> Food (snd (ProcessTurn (Some 0) ''continue'' (soloGame 315 10 50))) = - 8
   \<and> \<not> resourcesOK (snd (ProcessTurn (Some 0) ''continue'' (soloGame 315 10 50)))"
  by (simp add: soloGame_continue) (simp add: resourcesOK_def soloGame_def)

section \<open>The stale turn timer\<close>

text \<open>
  Claim C4. When the turn timer fires and the expected player is no longer the room's
  current player, or the room is no longer playing, or the engine is finished, or the
  expected player is no longer alive, the callback changes nothing: the room (its game
  and every resource with it) and the leaderboard are as before, and nothing is
  broadcast.
\<close>

theorem stale_timer_is_noop:
  assumes "staleTimer expectedPlayerID room"
  shows "handleTurnTimeout now expectedPlayerID room lb = (False, room, lb)"
proof (cases "GetCurrentPlayer (game room)")
  case None
  then show ?thesis by (simp add: handleTurnTimeout_def)
next
  case (Some cur)
  then have "cur \<in> set (Players (game room))"
    by (auto simp: GetCurrentPlayer_def split: if_splits)
  then have "p_ID (player (game room) cur) = expectedPlayerID \<Longrightarrow> p_Alive (player (game room) cur)
     \<Longrightarrow> list_ex (\<lambda>q. p_ID (player (game room) q) = expectedPlayerID
                          \<and> p_Alive (player (game room) q)) (Players (game room))"
    by (auto simp: list_ex_iff)
  then show ?thesis using assms Some
    by (auto simp: handleTurnTimeout_def staleTimer_def)
qed

theorem stale_timer_is_noop_witness:
  "staleTimer ''zed'' (soloRoom RoomTypeScheduled StatusPlaying (soloGame 315 10 50))
   \<and> handleTurnTimeout 7 ''zed'' (soloRoom RoomTypeScheduled StatusPlaying (soloGame 315 10 50)) []
       = (False, soloRoom RoomTypeScheduled StatusPlaying (soloGame 315 10 50), [])"
proof -
  have s: "staleTimer ''zed'' (soloRoom RoomTypeScheduled StatusPlaying (soloGame 315 10 50))"
    by (simp add: staleTimer_def soloRoom_def soloGame_def GetCurrentPlayer_def player_def)
  from stale_timer_is_noop [OF s] s show ?thesis by simp
qed

section \<open>Garbage collection of rooms\<close>

text \<open>
  Claim C7 says that the sweep never deletes a room that holds members, whatever its
  status or age. The sweep does delete one: a finished room with a member, created 11
  minutes before the sweep.
\<close>

theorem sweep_deletes_finished_room_with_members:
  "clients (soloRoom RoomTypeScheduled StatusFinished (soloGame 315 10 50)) \<noteq> []
   \<and> rooms (oneRoomServer (soloRoom RoomTypeScheduled StatusFinished (soloGame 315 10 50))) ''r1''
       = Some (soloRoom RoomTypeScheduled StatusFinished (soloGame 315 10 50))
   \<and> rooms (CleanupStaleRooms (11 * minute)
              (oneRoomServer (soloRoom RoomTypeScheduled StatusFinished (soloGame 315 10 50)))) ''r1''
       = None"
  by (simp add: CleanupStaleRooms_def staleRoom_def oneRoomServer_def soloRoom_def minute_def
      second_def)

text \<open>
  Claim C7, amended. The sweep deletes a room of the directory exactly when the room is
  not the permanent continuous room and it holds no member, or it is finished and older
  than 10 minutes, or it is waiting and older than 24 hours; a room it keeps is
  unchanged; a playing room that holds members is never deleted; and the cleanup after
  a disconnect deletes a room exactly when it is not the continuous room and holds no
  member.
\<close>

theorem sweep_deletes_exactly_stale_rooms:
  assumes "rooms s rid = Some room"
  shows "(rooms (CleanupStaleRooms now s) rid = None)
           = (rid \<noteq> ''continuous''
              \<and> (clients room = []
                 \<or> (status room = StatusFinished \<and> now - createdAt room > 10 * minute)
                 \<or> (status room = StatusWaiting \<and> now - createdAt room > 24 * hour)))
         \<and> (rooms (CleanupStaleRooms now s) rid = None
            \<or> rooms (CleanupStaleRooms now s) rid = Some room)
         \<and> (status room = StatusPlaying \<and> clients room \<noteq> []
              \<longrightarrow> rooms (CleanupStaleRooms now s) rid = Some room)
         \<and> (rooms (CleanupRoomIfEmpty rid s) rid = None)
             = (rid \<noteq> ''continuous'' \<and> clients room = [])"
  using assms
  by (auto simp: CleanupStaleRooms_def staleRoom_def CleanupRoomIfEmpty_def)

theorem sweep_deletes_exactly_stale_rooms_witness:
  "rooms (oneRoomServer (soloRoom RoomTypeScheduled StatusPlaying (soloGame 315 10 50))) ''r1''
     = Some (soloRoom RoomTypeScheduled StatusPlaying (soloGame 315 10 50))
   \<and> rooms (CleanupStaleRooms (11 * minute)
              (oneRoomServer (soloRoom RoomTypeScheduled StatusPlaying (soloGame 315 10 50)))) ''r1''
       = Some (soloRoom RoomTypeScheduled StatusPlaying (soloGame 315 10 50))
   \<and> rooms (CleanupRoomIfEmpty ''r1''
              (oneRoomServer (soloRoom RoomTypeScheduled StatusPlaying (soloGame 315 10 50)))) ''r1''
       \<noteq> None"
proof -
  let ?room = "soloRoom RoomTypeScheduled StatusPlaying (soloGame 315 10 50)"
  have r: "rooms (oneRoomServer ?room) ''r1'' = Some ?room"
    by (simp add: oneRoomServer_def soloRoom_def)
  have c: "status ?room = StatusPlaying \<and> clients ?room \<noteq> []"
    by (simp add: soloRoom_def)
  from sweep_deletes_exactly_stale_rooms [OF r, of "11 * minute"] r c show ?thesis
    by simp
qed

section \<open>A rider tactic out of range\<close>

lemma phase_NextTurn [simp]: "TurnPhase (NextTurn g) = TurnPhase g"
  by (simp add: NextTurn_def firstHuman_def Let_def split: option.splits)

lemma phase_advance [simp]:
  "TurnPhase (game (snd (advanceTurnAndCheckFort now room))) = TurnPhase (game room)"
  by (simp add: advanceTurnAndCheckFort_def StartTurnTimer_def Let_def split: option.splits)

lemma phase_finishOrAdvance [simp]:
  "TurnPhase (game (fst (finishOrAdvance now room lb))) = TurnPhase (game room)"
  by (simp add: finishOrAdvance_def CancelTurnTimer_def)

lemma phase_HandleRiderTactic [simp]:
  "TurnPhase (snd (HandleRiderTactic (Some p) t g)) = PhaseMainMenu"
  by (simp add: HandleRiderTactic_def Let_def)

text \<open>
  Claim C10. A rider request whose tactic is outside 1..4 is resolved exactly as the
  request with tactic 3; and when the request passes the checks (the client is
  registered, holds the turn and has a Player, and the phase is riders) it is not
  rejected and the state changes: the answer is the narrative, the game is the one
  that \<^verbatim>\<open>HandleRiderTactic\<close> with tactic 3 produces, followed by the end of the turn,
  and the phase is back at the main menu.
\<close>

theorem out_of_range_tactic_is_proceed:
  assumes "tactic < 1 \<or> 4 < tactic"
  shows "Server_HandleRiderTactic now clientID roomID tactic s
           = Server_HandleRiderTactic now clientID roomID 3 s
         \<and> (rooms s roomID = Some room \<and> map_of (clients room) clientID = Some c
              \<and> isCurrent c room \<and> TurnPhase (game room) = PhaseRiders \<and> c_Player c = Some p
            \<longrightarrow> fst (Server_HandleRiderTactic now clientID roomID tactic s) = Narrative
                \<and> (\<exists>room1. rooms (snd (Server_HandleRiderTactic now clientID roomID tactic s)) roomID
                              = Some room1
                            \<and> game room1
                                = game (fst (finishOrAdvance now
                                    (room\<lparr>game := snd (HandleRiderTactic (Some p) 3 (game room))\<rparr>)
                                    (leaderboard s)))
                            \<and> TurnPhase (game room1) = PhaseMainMenu)
                \<and> snd (Server_HandleRiderTactic now clientID roomID tactic s) \<noteq> s)"
proof -
  have eq: "HandleRiderTactic_locked now clientID tactic r lb
              = HandleRiderTactic_locked now clientID 3 r lb" for r lb
    using assms by (simp add: HandleRiderTactic_locked_def)
  then have "HandleRiderTactic_locked now clientID tactic = HandleRiderTactic_locked now clientID 3"
    by (intro ext)
  then have e1: "Server_HandleRiderTactic now clientID roomID tactic s
           = Server_HandleRiderTactic now clientID roomID 3 s"
    by (simp add: Server_HandleRiderTactic_def)
  have e2: "fst (Server_HandleRiderTactic now clientID roomID tactic s) = Narrative
            \<and> (\<exists>room1. rooms (snd (Server_HandleRiderTactic now clientID roomID tactic s)) roomID
                              = Some room1
                            \<and> game room1
                                = game (fst (finishOrAdvance now
                                    (room\<lparr>game := snd (HandleRiderTactic (Some p) 3 (game room))\<rparr>)
                                    (leaderboard s)))
                            \<and> TurnPhase (game room1) = PhaseMainMenu)
            \<and> snd (Server_HandleRiderTactic now clientID roomID tactic s) \<noteq> s"
    if g: "rooms s roomID = Some room" "map_of (clients room) clientID = Some c"
      "isCurrent c room" "TurnPhase (game room) = PhaseRiders" "c_Player c = Some p"
  proof -
    let ?g1 = "snd (HandleRiderTactic (Some p) 3 (game room))"
    let ?f = "finishOrAdvance now (room\<lparr>game := ?g1\<rparr>) (leaderboard s)"
    have r: "fst (HandleRiderTactic (Some p) 3 (game room)) = Narrative"
      by (simp add: HandleRiderTactic_def Let_def)
    have l: "HandleRiderTactic_locked now clientID 3 room (leaderboard s)
               = (Narrative, fst ?f, snd ?f)"
      using g r by (simp add: HandleRiderTactic_locked_def Let_def split_def)
    have sv: "Server_HandleRiderTactic now clientID roomID 3 s
               = (Narrative, (putRoom roomID (fst ?f) s)\<lparr>leaderboard := snd ?f\<rparr>)"
      using g(1) l by (simp add: Server_HandleRiderTactic_def inRoom_def GetRoom_def split_def)
    have ph: "TurnPhase (game (fst ?f)) = PhaseMainMenu" by simp
    have look: "rooms ((putRoom roomID (fst ?f) s)\<lparr>leaderboard := snd ?f\<rparr>) roomID = Some (fst ?f)"
      by (simp add: putRoom_def)
    have "fst ?f \<noteq> room"
    proof
      assume "fst ?f = room"
      with ph have "TurnPhase (game room) = PhaseMainMenu" by simp
      with g(4) show False by simp
    qed
    then have ne: "(putRoom roomID (fst ?f) s)\<lparr>leaderboard := snd ?f\<rparr> \<noteq> s"
      by (metis look g(1) option.inject)
    show ?thesis unfolding e1 sv using look ph ne by simp
  qed
  show ?thesis using e1 e2 by blast
qed

theorem out_of_range_tactic_is_proceed_witness:
  "((7::int) < 1 \<or> 4 < (7::int))
   \<and> Server_HandleRiderTactic 9 ''a'' ''r1'' 7 (oneRoomServer ridersRoom)
       = Server_HandleRiderTactic 9 ''a'' ''r1'' 3 (oneRoomServer ridersRoom)
   \<and> fst (Server_HandleRiderTactic 9 ''a'' ''r1'' 7 (oneRoomServer ridersRoom)) = Narrative
   \<and> snd (Server_HandleRiderTactic 9 ''a'' ''r1'' 7 (oneRoomServer ridersRoom))
       \<noteq> oneRoomServer ridersRoom"
proof -
  have t: "(7::int) < 1 \<or> 4 < (7::int)" by simp
  have g: "rooms (oneRoomServer ridersRoom) ''r1'' = Some ridersRoom
     \<and> map_of (clients ridersRoom) ''a'' = Some ann
     \<and> isCurrent ann ridersRoom \<and> TurnPhase (game ridersRoom) = PhaseRiders
     \<and> c_Player ann = Some 0"
    by (simp add: ridersRoom_def soloGame_continue)
      (simp add: oneRoomServer_def soloRoom_def ann_def isCurrent_def GetCurrentPlayer_def
        player_def soloGame_def)
  from out_of_range_tactic_is_proceed [OF t, of 9 "''a''" "''r1''" "oneRoomServer ridersRoom"
      ridersRoom ann 0] g t
  show ?thesis by blast
qed

section \<open>Claiming a loot site\<close>

lemma firstIndex_Some:
  "firstIndex P xs = Some i \<Longrightarrow> i < length xs \<and> P (xs ! i)"
  by (induction xs arbitrary: i) (auto split: if_splits)

lemma firstIndex_update:
  "firstIndex P xs = Some i \<Longrightarrow> P y \<Longrightarrow> firstIndex P (xs[i := y]) = Some i"
  by (induction xs arbitrary: i) (auto split: if_splits)

lemma LootSites_ClampResources [simp]: "LootSites (ClampResources g) = LootSites g"
  by (simp add: ClampResources_def)

text \<open>A request that names a looted site changes nothing.\<close>

lemma looted_claim_unchanged:
  assumes "firstIndex (\<lambda>site. ls_ID site = sid) (LootSites (game room)) = Some i"
    and "ls_IsLooted (LootSites (game room) ! i)"
  shows "snd (HandleLootClaim_locked now clientID sid room) = room"
  using assms
  by (simp add: HandleLootClaim_locked_def claimSite_def Let_def split: option.splits)

lemma claim_marks_looted:
  assumes "HandleLootClaim_locked now clientID sid room = (Looted site1, room1)"
  shows "\<exists>i. firstIndex (\<lambda>site. ls_ID site = sid) (LootSites (game room1)) = Some i
             \<and> ls_IsLooted (LootSites (game room1) ! i)"
proof -
  from assms obtain c i where
    i: "firstIndex (\<lambda>site. ls_ID site = sid) (LootSites (game room)) = Some i"
    and cs: "claimSite now c i room = (Looted site1, room1)"
    by (auto simp: HandleLootClaim_locked_def split: option.splits if_splits)
  from firstIndex_Some [OF i] have lt: "i < length (LootSites (game room))"
    and idi: "ls_ID (LootSites (game room) ! i) = sid" by auto
  let ?site1 = "(LootSites (game room) ! i)
                  \<lparr>ls_IsLooted := True, ls_LootedBy := c_Name c, ls_LootedAt := now\<rparr>"
  from cs have ls: "LootSites (game room1) = (LootSites (game room))[i := ?site1]"
    by (auto simp: claimSite_def Let_def split: if_splits)
  have "firstIndex (\<lambda>site. ls_ID site = sid) ((LootSites (game room))[i := ?site1]) = Some i"
    using i idi by (intro firstIndex_update) simp_all
  then show ?thesis using ls lt by auto
qed

text \<open>
  Claim C9 says that a request for a looted site is answered "already been scavenged".
  It is not when the claimant is more than 50 miles away: the range check comes first,
  and the answer is "too far".
\<close>

theorem looted_site_far_away_answers_too_far:
  "ls_IsLooted lootedSite
   \<and> ls_ID lootedSite = ''loot-b-1''
   \<and> HandleLootClaim_locked 5 ''a'' ''loot-b-1'' (lootRoom 315 lootedSite)
       = (TooFar, lootRoom 315 lootedSite)"
  by (simp add: HandleLootClaim_locked_def claimSite_def lootRoom_def lootedSite_def soloRoom_def
      soloGame_def ann_def isCurrent_def GetCurrentPlayer_def player_def Let_def)

text \<open>
  Claim C9, amended. When the first site with the requested id is looted, the request
  leaves the room unchanged (the claimant's resources and the site record with it),
  whatever it answers; it answers "already been scavenged by" the claimant's name when
  the requester is a registered client who holds the turn in a continuous room within
  50 miles of the site; and after a successful claim of a site every later request for
  that site leaves the room unchanged, so that a site's resources are transferred at
  most once.
\<close>

theorem looted_site_is_never_claimed_again:
  assumes "firstIndex (\<lambda>site. ls_ID site = sid) (LootSites (game room)) = Some i"
    and "ls_IsLooted (LootSites (game room) ! i)"
  shows "snd (HandleLootClaim_locked now clientID sid room) = room
         \<and> (map_of (clients room) clientID = Some c \<and> isCurrent c room
              \<and> roomType room = RoomTypeContinuous
              \<and> ls_Mileage (LootSites (game room) ! i) - 50 \<le> Mileage (game room)
              \<and> Mileage (game room) \<le> ls_Mileage (LootSites (game room) ! i) + 50
            \<longrightarrow> fst (HandleLootClaim_locked now clientID sid room)
                  = AlreadyScavenged (ls_LootedBy (LootSites (game room) ! i)))
         \<and> (HandleLootClaim_locked now0 client0 sid0 room0 = (Looted site1, room1)
            \<longrightarrow> snd (HandleLootClaim_locked now1 client1 sid0 room1) = room1)"
proof -
  have a: "snd (HandleLootClaim_locked now clientID sid room) = room"
    using assms by (rule looted_claim_unchanged)
  have b: "fst (HandleLootClaim_locked now clientID sid room)
                  = AlreadyScavenged (ls_LootedBy (LootSites (game room) ! i))"
    if "map_of (clients room) clientID = Some c" "isCurrent c room"
      "roomType room = RoomTypeContinuous"
      "ls_Mileage (LootSites (game room) ! i) - 50 \<le> Mileage (game room)"
      "Mileage (game room) \<le> ls_Mileage (LootSites (game room) ! i) + 50"
    using that assms by (simp add: HandleLootClaim_locked_def claimSite_def Let_def)
  have c: "snd (HandleLootClaim_locked now1 client1 sid0 room1) = room1"
    if "HandleLootClaim_locked now0 client0 sid0 room0 = (Looted site1, room1)"
    using claim_marks_looted [OF that] looted_claim_unchanged by blast
  show ?thesis using a b c by blast
qed

theorem looted_site_is_never_claimed_again_witness:
  "firstIndex (\<lambda>site. ls_ID site = ''loot-b-1'') (LootSites (game (lootRoom 30 lootedSite))) = Some 0
   \<and> ls_IsLooted (LootSites (game (lootRoom 30 lootedSite)) ! 0)
   \<and> HandleLootClaim_locked 5 ''a'' ''loot-b-1'' (lootRoom 30 lootedSite)
       = (AlreadyScavenged ''Cy'', lootRoom 30 lootedSite)
   \<and> fst (HandleLootClaim_locked 5 ''a'' ''loot-b-1''
             (lootRoom 30 (lootedSite\<lparr>ls_IsLooted := False\<rparr>)))
       = Looted (lootedSite\<lparr>ls_IsLooted := True, ls_LootedBy := ''Ann'', ls_LootedAt := 5\<rparr>)
   \<and> snd (HandleLootClaim_locked 6 ''a'' ''loot-b-1''
             (snd (HandleLootClaim_locked 5 ''a'' ''loot-b-1''
                     (lootRoom 30 (lootedSite\<lparr>ls_IsLooted := False\<rparr>)))))
       = snd (HandleLootClaim_locked 5 ''a'' ''loot-b-1''
                (lootRoom 30 (lootedSite\<lparr>ls_IsLooted := False\<rparr>)))"
proof -
  let ?room = "lootRoom 30 lootedSite"
  let ?open = "lootRoom 30 (lootedSite\<lparr>ls_IsLooted := False\<rparr>)"
  have h: "firstIndex (\<lambda>site. ls_ID site = ''loot-b-1'') (LootSites (game ?room)) = Some 0"
    "ls_IsLooted (LootSites (game ?room) ! 0)"
    by (simp_all add: lootRoom_def lootedSite_def soloRoom_def)
  have g: "map_of (clients ?room) ''a'' = Some ann \<and> isCurrent ann ?room
      \<and> roomType ?room = RoomTypeContinuous
      \<and> ls_Mileage (LootSites (game ?room) ! 0) - 50 \<le> Mileage (game ?room)
      \<and> Mileage (game ?room) \<le> ls_Mileage (LootSites (game ?room) ! 0) + 50
      \<and> ls_LootedBy (LootSites (game ?room) ! 0) = ''Cy''"
    by (simp add: lootRoom_def lootedSite_def soloRoom_def soloGame_def ann_def isCurrent_def
        GetCurrentPlayer_def player_def)
  have o: "fst (HandleLootClaim_locked 5 ''a'' ''loot-b-1'' ?open)
       = Looted (lootedSite\<lparr>ls_IsLooted := True, ls_LootedBy := ''Ann'', ls_LootedAt := 5\<rparr>)"
    by (simp add: HandleLootClaim_locked_def claimSite_def lootRoom_def lootedSite_def soloRoom_def
        soloGame_def ann_def isCurrent_def GetCurrentPlayer_def player_def Let_def)
  then have p: "HandleLootClaim_locked 5 ''a'' ''loot-b-1'' ?open
       = (Looted (lootedSite\<lparr>ls_IsLooted := True, ls_LootedBy := ''Ann'', ls_LootedAt := 5\<rparr>),
          snd (HandleLootClaim_locked 5 ''a'' ''loot-b-1'' ?open))"
    by (metis prod.collapse)
  note t = looted_site_is_never_claimed_again [OF h, of 5 "''a''" ann 5 "''a''" "''loot-b-1''" ?open
      "lootedSite\<lparr>ls_IsLooted := True, ls_LootedBy := ''Ann'', ls_LootedAt := 5\<rparr>"
      "snd (HandleLootClaim_locked 5 ''a'' ''loot-b-1'' ?open)" 6 "''a''"]
  from t g have "HandleLootClaim_locked 5 ''a'' ''loot-b-1'' ?room = (AlreadyScavenged ''Cy'', ?room)"
    by (metis prod.collapse)
  moreover from t p have "snd (HandleLootClaim_locked 6 ''a'' ''loot-b-1''
             (snd (HandleLootClaim_locked 5 ''a'' ''loot-b-1'' ?open)))
       = snd (HandleLootClaim_locked 5 ''a'' ''loot-b-1'' ?open)"
    by blast
  ultimately show ?thesis using h o by blast
qed

section \<open>Requests short of resources\<close>

text \<open>
  Claim C5 says that a hunt without enough ammunition is rejected and leaves the state
  unchanged. It is not rejected: with 49 bullets the hunt answers "Not enough bullets to
  hunt!" and then travels; the food goes from 100 to 82, the mileage from 315 to 395,
  and the turn pauses for riders.
\<close>

theorem short_of_bullets_hunt_travels:
  "Bullets (soloGame 315 100 49) < 50
   \<and> fst (ProcessTurn (Some 0) ''hunt'' (soloGame 315 100 49)) = NotEnoughBullets
   \<and> Food (soloGame 315 100 49) = 100
   \<and> Food (snd (ProcessTurn (Some 0) ''hunt'' (soloGame 315 100 49))) = 82
   \<and> Mileage (soloGame 315 100 49) = 315
   \<and> Mileage (snd (ProcessTurn (Some 0) ''hunt'' (soloGame 315 100 49))) = 395
   \<and> TurnPhase (snd (ProcessTurn (Some 0) ''hunt'' (soloGame 315 100 49))) = PhaseRiders"
  by (simp add: soloGame_hunt_short) (simp add: soloGame_def)

text \<open>
  Claim C5, amended. A fort purchase that costs more than the cash, and a fort sale of
  more than the stock of the item, are rejected with a message that states the
  shortfall and leave the entire game state unchanged. A hunt with fewer than 50
  bullets is not rejected: it answers "Not enough bullets to hunt!" and plays the turn
  as a "continue" from the main menu.
\<close>

theorem shortfall_requests:
  "(TurnPhase g = PhaseFort \<and> 0 < qty \<and> GetFortPrices item = Some fi
      \<and> Cash g < Price fi * real_of_int qty
    \<longrightarrow> HandleFortBuy item qty g = (NotEnoughCash (Price fi * real_of_int qty) (Cash g), g))
   \<and> (TurnPhase g = PhaseFort \<and> 0 < qty \<and> GetFortPrices item = Some fi
        \<and> stock item g < Qty fi * real_of_int qty
      \<longrightarrow> HandleFortSell item qty g
            = (NotEnoughToSell (stockWord item) (stock item g) (Qty fi * real_of_int qty), g))
   \<and> (p_Alive (player g p) \<and> Bullets g < 50
      \<longrightarrow> ProcessTurn (Some p) ''hunt'' g
            = (NotEnoughBullets, ContinueTravel p (g\<lparr>TurnPhase := PhaseMainMenu\<rparr>)))"
proof -
  have buy: "HandleFortBuy item qty g = (NotEnoughCash (Price fi * real_of_int qty) (Cash g), g)"
    if "TurnPhase g = PhaseFort" "0 < qty" "GetFortPrices item = Some fi"
      "Cash g < Price fi * real_of_int qty"
    using that by (simp add: HandleFortBuy_def Let_def)
  have sell: "HandleFortSell item qty g
            = (NotEnoughToSell (stockWord item) (stock item g) (Qty fi * real_of_int qty), g)"
    if "TurnPhase g = PhaseFort" "0 < qty" "GetFortPrices item = Some fi"
      "stock item g < Qty fi * real_of_int qty"
    using that
    by (auto simp: HandleFortSell_def GetFortPrices_def stock_def stockWord_def Let_def
        split: if_splits)
  have hunt: "ProcessTurn (Some p) ''hunt'' g
            = (NotEnoughBullets, ContinueTravel p (g\<lparr>TurnPhase := PhaseMainMenu\<rparr>))"
    if "p_Alive (player g p)" "Bullets g < 50"
    using that by (simp add: ProcessTurn_def Let_def)
  show ?thesis using buy sell hunt by blast
qed

theorem shortfall_requests_witness:
  "HandleFortBuy ''food'' 100 ((soloGame 315 10 50)\<lparr>TurnPhase := PhaseFort\<rparr>)
     = (NotEnoughCash 1000 700, (soloGame 315 10 50)\<lparr>TurnPhase := PhaseFort\<rparr>)
   \<and> HandleFortSell ''misc'' 3 ((soloGame 315 10 50)\<lparr>TurnPhase := PhaseFort\<rparr>)
       = (NotEnoughToSell ''supplies'' 10 15, (soloGame 315 10 50)\<lparr>TurnPhase := PhaseFort\<rparr>)
   \<and> ProcessTurn (Some 0) ''hunt'' (soloGame 315 100 49)
       = (NotEnoughBullets, ContinueTravel 0 ((soloGame 315 100 49)\<lparr>TurnPhase := PhaseMainMenu\<rparr>))"
proof -
  let ?f = "(soloGame 315 10 50)\<lparr>TurnPhase := PhaseFort\<rparr>"
  have b: "TurnPhase ?f = PhaseFort \<and> (0::int) < 100
      \<and> GetFortPrices ''food'' = Some \<lparr>Price = 10, Qty = 25, Label = ''Food Pack (25 lbs)''\<rparr>
      \<and> Cash ?f < Price \<lparr>Price = 10, Qty = 25, Label = ''Food Pack (25 lbs)''\<rparr> * real_of_int 100
      \<and> Cash ?f = 700"
    by (simp add: soloGame_def GetFortPrices_def)
  have s: "TurnPhase ?f = PhaseFort \<and> (0::int) < 3
      \<and> GetFortPrices ''misc'' = Some \<lparr>Price = 5, Qty = 5, Label = ''Supply Kit (5 kits)''\<rparr>
      \<and> stock ''misc'' ?f < Qty \<lparr>Price = 5, Qty = 5, Label = ''Supply Kit (5 kits)''\<rparr> * real_of_int 3
      \<and> stock ''misc'' ?f = 10 \<and> stockWord ''misc'' = ''supplies''"
    by (simp add: soloGame_def GetFortPrices_def stock_def stockWord_def)
  have h: "p_Alive (player (soloGame 315 100 49) 0) \<and> Bullets (soloGame 315 100 49) < 50"
    by (simp add: soloGame_def player_def)
  from shortfall_requests [of ?f 100 "''food''" "\<lparr>Price = 10, Qty = 25, Label = ''Food Pack (25 lbs)''\<rparr>"] b
  have 1: "HandleFortBuy ''food'' 100 ?f = (NotEnoughCash 1000 700, ?f)" by simp
  from shortfall_requests [of ?f 3 "''misc''" "\<lparr>Price = 5, Qty = 5, Label = ''Supply Kit (5 kits)''\<rparr>"] s
  have 2: "HandleFortSell ''misc'' 3 ?f = (NotEnoughToSell ''supplies'' 10 15, ?f)" by simp
  from shortfall_requests [of "soloGame 315 100 49" _ _ _ 0] h
  have 3: "ProcessTurn (Some 0) ''hunt'' (soloGame 315 100 49)
       = (NotEnoughBullets, ContinueTravel 0 ((soloGame 315 100 49)\<lparr>TurnPhase := PhaseMainMenu\<rparr>))"
    by blast
  from 1 2 3 show ?thesis by blast
qed

section \<open>Joining a room again\<close>

lemmas join_eval =
  startedParty_def joining_def HandleAction_locked_def startRoom_def initRoomResources_def
  AddClient_locked_def AddPlayer_def NewGameRoom_def NewGameState_def StartTurnTimer_def
  GetCurrentPlayer_def player_def set_player_def newParty_def showInt_def turnTimeLimit_def
  second_def Let_def

lemma startedSolo:
  "startedParty [joining ''a'' ''Ann'']
     = \<lparr>room_id = ''r1'', room_name = ''Party'', roomType = RoomTypeScheduled,
        status = StatusPlaying, password = [], ownerID = [], maxPlayers = 0, createdAt = 0,
        game = (NewGameState (\<lambda>_. 0))
                 \<lparr>Heap := [\<lparr>p_ID = ''a'', p_Name = ''Ann'', p_Type = PlayerTypeHuman,
                            p_Party = newParty, p_Connected = True, p_ShootingRank = 3,
                            p_Alive = True\<rparr>],
                  Players := [0], TurnNumber := 1, OxenCost := 220, Food := 100, Bullets := 50,
                  Clothing := 20, MiscSupplies := 10, Cash := 700\<rparr>,
        clients = [(''a'', \<lparr>c_ID = ''a'', c_Name = ''Ann'', c_Player = Some 0, c_SessionID = [],
                            c_RoomID = ''r1''\<rparr>)],
        deadPlayers = {}, turnTimer = Some ''a'', turnDeadline = Some 20000000000\<rparr>"
  by (simp add: join_eval)


text \<open>
  Claim C8. A second join with the same connection id recovers the existing Player.
  The code does not in a scheduled room that has started: Ann joins a scheduled room,
  the game starts, and Ann joins again with the same connection id and name. No second
  Player is made and the game is unchanged, but the client now registered under her id
  has no Player, and her next action is answered "Player not found".
\<close>

theorem rejoin_started_party_loses_player:
  "map_option c_Player (map_of (clients (startedParty [joining ''a'' ''Ann''])) ''a'') = Some (Some 0)
   \<and> roomType (startedParty [joining ''a'' ''Ann'']) = RoomTypeScheduled
   \<and> status (startedParty [joining ''a'' ''Ann'']) = StatusPlaying
   \<and> map_option c_Player
         (map_of (clients (AddClient_locked 5 (joining ''a'' ''Ann'') ''r1''
                            (startedParty [joining ''a'' ''Ann'']))) ''a'') = Some None
   \<and> game (AddClient_locked 5 (joining ''a'' ''Ann'') ''r1'' (startedParty [joining ''a'' ''Ann'']))
       = game (startedParty [joining ''a'' ''Ann''])
   \<and> fst (HandleAction_locked 6 ''a'' ''continue''
             (AddClient_locked 5 (joining ''a'' ''Ann'') ''r1'' (startedParty [joining ''a'' ''Ann'']))
             []) = PlayerNotFound"
  by (simp add: startedSolo) (simp add: AddClient_locked_def HandleAction_locked_def joining_def)

section \<open>The turn holder\<close>

lemma startedDuo:
  "startedParty [joining ''b'' ''Bob'', joining ''a'' ''Ann'']
     = \<lparr>room_id = ''r1'', room_name = ''Party'', roomType = RoomTypeScheduled,
        status = StatusPlaying, password = [], ownerID = [], maxPlayers = 0, createdAt = 0,
        game = (NewGameState (\<lambda>_. 0))
                 \<lparr>Heap := [\<lparr>p_ID = ''b'', p_Name = ''Bob'', p_Type = PlayerTypeHuman,
                            p_Party = newParty, p_Connected = True, p_ShootingRank = 3,
                            p_Alive = True\<rparr>,
                           \<lparr>p_ID = ''a'', p_Name = ''Ann'', p_Type = PlayerTypeHuman,
                            p_Party = newParty, p_Connected = True, p_ShootingRank = 3,
                            p_Alive = True\<rparr>],
                  Players := [0, 1], TurnNumber := 1, OxenCost := 220, Food := 100,
                  Bullets := 50, Clothing := 20, MiscSupplies := 10, Cash := 700\<rparr>,
        clients = [(''b'', \<lparr>c_ID = ''b'', c_Name = ''Bob'', c_Player = Some 0, c_SessionID = [],
                            c_RoomID = ''r1''\<rparr>),
                   (''a'', \<lparr>c_ID = ''a'', c_Name = ''Ann'', c_Player = Some 1, c_SessionID = [],
                            c_RoomID = ''r1''\<rparr>)],
        deadPlayers = {}, turnTimer = Some ''b'', turnDeadline = Some 20000000000\<rparr>"
  by (simp add: join_eval)

lemma bobTimedOut_eval:
  "bobTimedOut
     = \<lparr>room_id = ''r1'', room_name = ''Party'', roomType = RoomTypeScheduled,
        status = StatusPlaying, password = [], ownerID = [], maxPlayers = 0, createdAt = 0,
        game = (NewGameState (\<lambda>_. 0))
                 \<lparr>Heap := [\<lparr>p_ID = ''b'', p_Name = ''Bob'', p_Type = PlayerTypeHuman,
                            p_Party = newParty
                              [0 := \<lparr>m_Name = ''You'', m_Alive = False, m_Health = 0,
                                     m_Injured = False\<rparr>],
                            p_Connected = True, p_ShootingRank = 3, p_Alive = False\<rparr>,
                           \<lparr>p_ID = ''a'', p_Name = ''Ann'', p_Type = PlayerTypeHuman,
                            p_Party = newParty, p_Connected = True, p_ShootingRank = 3,
                            p_Alive = True\<rparr>],
                  Players := [0, 1], CurrentPlayerIdx := 1, TurnNumber := 2, OxenCost := 220,
                  Food := 100, Bullets := 50, Clothing := 20, MiscSupplies := 10, Cash := 700,
                  TurnPhase := PhaseMainMenu, RandPos := 1\<rparr>,
        clients = [(''b'', \<lparr>c_ID = ''b'', c_Name = ''Bob'', c_Player = Some 0, c_SessionID = [],
                            c_RoomID = ''r1''\<rparr>),
                   (''a'', \<lparr>c_ID = ''a'', c_Name = ''Ann'', c_Player = Some 1, c_SessionID = [],
                            c_RoomID = ''r1''\<rparr>)],
        deadPlayers = {}, turnTimer = Some ''a'', turnDeadline = Some 40000000000\<rparr>"
  by (simp add: bobTimedOut_def startedDuo)
    (simp add: handleTurnTimeout_def advanceTurnAndCheckFort_def NextTurn_def firstHuman_def
      GetHumanPlayers_def DamageRandomMember_def DamagePartyMember_def aliveMembers_def
      CheckAllPlayersDead_def Intn_def fortInterval_def NewGameState_def StartTurnTimer_def
      GetCurrentPlayer_def player_def set_player_def newParty_def turnTimeLimit_def second_def
      Let_def)

text \<open>
  Claim C2. While a room is playing, the current player is an alive human or the engine
  is finished, in particular after a logout. The code does not keep this: Bob and Ann
  join a scheduled room and the game starts; Bob's turn timer fires and kills his
  leader, and the turn passes to Ann; the invariant holds so far. Ann logs out: the
  room is still playing, the engine is not finished, and the current player is Bob,
  who is dead.
\<close>

theorem logout_leaves_dead_turn_holder:
  "turnHolderOK (startedParty [joining ''b'' ''Bob'', joining ''a'' ''Ann''])
   \<and> turnHolderOK bobTimedOut
   \<and> status (LogoutClient_locked 50000000000 ''a'' bobTimedOut) = StatusPlaying
   \<and> \<not> GameOver (game (LogoutClient_locked 50000000000 ''a'' bobTimedOut))
   \<and> currentPlayerID (LogoutClient_locked 50000000000 ''a'' bobTimedOut) = ''b''
   \<and> GetCurrentPlayer (game (LogoutClient_locked 50000000000 ''a'' bobTimedOut)) = Some 0
   \<and> \<not> p_Alive (player (game (LogoutClient_locked 50000000000 ''a'' bobTimedOut)) 0)
   \<and> \<not> turnHolderOK (LogoutClient_locked 50000000000 ''a'' bobTimedOut)"
  by (simp add: startedDuo bobTimedOut_eval)
    (simp add: turnHolderOK_def currentPlayerID_def LogoutClient_locked_def wasCurrent_def
      rearmAfterLeave_def transferOwnership_def reclampIdx_def removeAt_def NewGameState_def
      GetCurrentPlayer_def player_def newParty_def Let_def)

section \<open>The hunt scenario\<close>

lemma partyOfTwo_eval:
  assumes "c_ID cA \<noteq> c_ID cB" and "c_Name cA \<noteq> c_Name cB"
  shows "partyOfTwo now seed rid cA cB
     = \<lparr>room_id = rid, room_name = ''Party'', roomType = RoomTypeScheduled,
        status = StatusPlaying, password = [], ownerID = [], maxPlayers = 0, createdAt = now,
        game = (NewGameState seed)
                 \<lparr>Heap := [\<lparr>p_ID = c_ID cA, p_Name = c_Name cA, p_Type = PlayerTypeHuman,
                            p_Party = newParty, p_Connected = True, p_ShootingRank = 3,
                            p_Alive = True\<rparr>,
                           \<lparr>p_ID = c_ID cB, p_Name = c_Name cB, p_Type = PlayerTypeHuman,
                            p_Party = newParty, p_Connected = True, p_ShootingRank = 3,
                            p_Alive = True\<rparr>],
                  Players := [0, 1], TurnNumber := 1, OxenCost := 220, Food := 100,
                  Bullets := 50, Clothing := 20, MiscSupplies := 10, Cash := 700\<rparr>,
        clients = [(c_ID cA, cA\<lparr>c_RoomID := rid, c_Player := Some 0\<rparr>),
                   (c_ID cB, cB\<lparr>c_RoomID := rid, c_Player := Some 1\<rparr>)],
        deadPlayers = {}, turnTimer = Some (c_ID cA), turnDeadline = Some (now + 20000000000)\<rparr>"
  using assms
  by (simp add: partyOfTwo_def HandleAction_locked_def startRoom_def initRoomResources_def
      AddClient_locked_def AddPlayer_def NewGameRoom_def NewGameState_def StartTurnTimer_def
      GetCurrentPlayer_def player_def set_player_def turnTimeLimit_def second_def Let_def)


lemma huntAccuracy_250: "huntAccuracy 250 = 0"
  by (simp add: huntAccuracy_def)

lemma hunt_entry:
  assumes "p_Alive (player g p)" and "p_Type (player g p) = PlayerTypeHuman"
    and "50 \<le> Bullets g"
  shows "ProcessTurn (Some p) ''hunt'' g
           = (GetReady,
              g\<lparr>TurnPhase := PhaseHunting, RandPos := RandPos g + 1,
                HuntWord := shootingWords ! (Rand g (RandPos g) mod 4),
                Bullets := Bullets g - 50\<rparr>)"
  using assms
  by (simp add: ProcessTurn_def GetShootingPrompt_def Intn_def player_def shootingWords_def
      Let_def)

lemma Float64_draw: "Float64 g = (draw (Rand g) (RandPos g), g\<lparr>RandPos := RandPos g + 1\<rparr>)"
  by (simp add: Float64_def draw_def)

lemma draw_range: "0 \<le> draw r i \<and> draw r i < 1"
  by (simp add: draw_def)

text \<open>A shot within 300 ms, far from the end of the trail.\<close>

lemma sure_shot:
  assumes "ms < 300" and "0 \<le> Mileage g" and "Mileage g + 65 \<le> TrailLength"
  shows "HandleHuntShoot (Some p) ms g
           = (Narrative,
              (ClampResources
                 (g\<lparr>RandPos := RandPos g + 2,
                    Food := Food g + (52 + draw (Rand g) (RandPos g) * 6),
                    Bullets := (if Bullets g - 10 < 0 then 0 else Bullets g - 10),
                    Mileage := Mileage g + (45 + draw (Rand g) (RandPos g + 1) * 20)\<rparr>))
                \<lparr>TurnPhase := PhaseMainMenu\<rparr>)"
proof -
  have acc: "huntAccuracy ms = 0" using assms(1) by (simp add: huntAccuracy_def)
  have rb: "0 \<le> draw (Rand g) (Suc (RandPos g)) \<and> draw (Rand g) (Suc (RandPos g)) < 1"
    by (rule draw_range)
  have nowin: "\<not> TrailLength \<le> clamp0 (Mileage g + (45 + draw (Rand g) (Suc (RandPos g)) * 20))"
    using assms(2,3) rb by (simp add: clamp0_def TrailLength_def)
  show ?thesis
    using nowin
    by (simp add: HandleHuntShoot_def acc Float64_draw Let_def ClampResources_def)
qed


lemma NextTurn_keeps:
  "Food (NextTurn g) = Food g \<and> Mileage (NextTurn g) = Mileage g \<and> Heap (NextTurn g) = Heap g
   \<and> Players (NextTurn g) = Players g \<and> TurnPhase (NextTurn g) = TurnPhase g"
  by (simp add: NextTurn_def firstHuman_def Let_def split: option.splits)

text \<open>With two alive humans in the roster and the first one current, the turn passes on.\<close>

lemma NextTurn_two:
  assumes "Players g = [qa, qb]" and "qa \<noteq> qb" and "CurrentPlayerIdx g = 0"
    and "p_Alive (player g qa)" and "p_Type (player g qa) = PlayerTypeHuman"
    and "p_Alive (player g qb)" and "p_Type (player g qb) = PlayerTypeHuman"
  shows "CurrentPlayerIdx (NextTurn g) = 1 \<and> GameOver (NextTurn g) = GameOver g"
  using assms
  by (simp add: NextTurn_def firstHuman_def GetHumanPlayers_def GetCurrentPlayer_def player_def
      Let_def)

lemma advance_game:
  "\<exists>b. game (snd (advanceTurnAndCheckFort now room)) = (NextTurn (game room))\<lparr>FortAvailable := b\<rparr>"
proof (cases "\<exists>np. GetCurrentPlayer (NextTurn (game room)) = Some np
                \<and> p_Alive (player (NextTurn (game room)) np) \<and> \<not> GameOver (NextTurn (game room))
                \<and> TurnNumber (NextTurn (game room)) > 0
                \<and> TurnNumber (NextTurn (game room)) mod fortInterval = 0")
  case True
  then have "game (snd (advanceTurnAndCheckFort now room))
               = (NextTurn (game room))\<lparr>FortAvailable := True\<rparr>"
    by (auto simp: advanceTurnAndCheckFort_def StartTurnTimer_def Let_def)
  then show ?thesis by blast
next
  case False
  then have "game (snd (advanceTurnAndCheckFort now room))
               = (NextTurn (game room))\<lparr>FortAvailable := FortAvailable (NextTurn (game room))\<rparr>"
    by (auto simp: advanceTurnAndCheckFort_def StartTurnTimer_def Let_def split: option.splits)
  then show ?thesis by blast
qed

lemma advance_status [simp]: "status (snd (advanceTurnAndCheckFort now room)) = status room"
  by (simp add: advanceTurnAndCheckFort_def StartTurnTimer_def Let_def split: option.splits)

lemma hunt_scenario_steps:
  assumes g: "game room = g" and st: "status room = StatusPlaying"
    and ros: "Players g = [qa, qb]" "qa \<noteq> qb" "CurrentPlayerIdx g = 0"
    and pa: "p_Alive (player g qa)" "p_Type (player g qa) = PlayerTypeHuman"
      "p_ID (player g qa) = idA"
    and pb: "p_Alive (player g qb)" "p_Type (player g qb) = PlayerTypeHuman"
      "p_ID (player g qb) = idB"
    and cl: "map_of (clients room) idA = Some c" "c_Player c = Some qa" "c_ID c = idA"
    and res: "Bullets g = 50" "0 \<le> Mileage g" "Mileage g + 65 \<le> TrailLength" "0 \<le> Food g"
      "\<not> GameOver g"
  shows "(let (r1, room1, lb1) = HandleAction_locked t1 idA ''hunt'' room lb;
              (r2, room2, lb2) = HandleHuntShoot_locked t2 idA 250 room1 lb1
          in r1 = GetReady \<and> TurnPhase (game room1) = PhaseHunting
             \<and> Bullets (game room1) = Bullets g - 50
             \<and> Mileage (game room1) = Mileage g
             \<and> currentPlayerID room1 = idA
             \<and> r2 = Narrative
             \<and> 52 \<le> Food (game room2) - Food (game room1)
             \<and> Food (game room2) - Food (game room1) < 58
             \<and> 45 \<le> Mileage (game room2) - Mileage (game room1)
             \<and> Mileage (game room2) - Mileage (game room1) < 65
             \<and> TurnPhase (game room2) = PhaseMainMenu
             \<and> currentPlayerID room2 = idB \<and> turnHolderOK room2)"
proof -
  define g1 where "g1 = g\<lparr>TurnPhase := PhaseHunting, RandPos := RandPos g + 1,
                          HuntWord := shootingWords ! (Rand g (RandPos g) mod 4),
                          Bullets := Bullets g - 50\<rparr>"
  define room1 where "room1 = room\<lparr>game := g1\<rparr>"
  have f1: "Heap g1 = Heap g" "Players g1 = Players g" "CurrentPlayerIdx g1 = 0"
    "Mileage g1 = Mileage g" "Food g1 = Food g" "\<not> GameOver g1" "TurnPhase g1 = PhaseHunting"
    "Bullets g1 = Bullets g - 50"
    using ros(3) res(5) by (simp_all add: g1_def)
  have pl1: "player g1 = player g" using f1(1) by (simp add: player_def fun_eq_iff)
  have pt: "ProcessTurn (Some qa) ''hunt'' g = (GetReady, g1)"
    unfolding g1_def using pa(1,2) res(1) by (intro hunt_entry) simp_all
  have a1: "HandleAction_locked t1 idA ''hunt'' room lb = (GetReady, room1, lb)"
    using cl pa(1) pt f1(6,7) pl1
    by (simp add: HandleAction_locked_def g room1_def Let_def)
  define a where "a = draw (Rand g1) (RandPos g1)"
  define b where "b = draw (Rand g1) (RandPos g1 + 1)"
  define g2 where "g2 = (ClampResources
                 (g1\<lparr>RandPos := RandPos g1 + 2, Food := Food g1 + (52 + a * 6),
                     Bullets := (if Bullets g1 - 10 < 0 then 0 else Bullets g1 - 10),
                     Mileage := Mileage g1 + (45 + b * 20)\<rparr>))
                \<lparr>TurnPhase := PhaseMainMenu\<rparr>"
  have ra: "0 \<le> a \<and> a < 1" unfolding a_def by (rule draw_range)
  have rb: "0 \<le> b \<and> b < 1" unfolding b_def by (rule draw_range)
  have hs: "HandleHuntShoot (Some qa) 250 g1 = (Narrative, g2)"
    unfolding g2_def a_def b_def using res(2,3) f1(4) by (intro sure_shot) simp_all
  have f2: "Heap g2 = Heap g" "Players g2 = Players g" "CurrentPlayerIdx g2 = 0"
    "\<not> GameOver g2" "TurnPhase g2 = PhaseMainMenu"
    "Food g2 = Food g + (52 + a * 6)" "Mileage g2 = Mileage g + (45 + b * 20)"
    using f1 res(2,4) ra rb by (simp_all add: g2_def ClampResources_def clamp0_def)
  have pl2: "player g2 = player g" using f2(1) by (simp add: player_def fun_eq_iff)
  have cur1: "isCurrent c room1"
    using ros(1) f1(2,3) pa(3) cl(3) pl1
    by (simp add: isCurrent_def room1_def GetCurrentPlayer_def)
  define room2 where "room2 = snd (advanceTurnAndCheckFort t2 (room1\<lparr>game := g2\<rparr>))"
  have a2: "HandleHuntShoot_locked t2 idA 250 room1 lb = (Narrative, room2, lb)"
    using cl cur1 f1(7) hs f2(4)
    by (simp add: HandleHuntShoot_locked_def finishOrAdvance_def room1_def room2_def Let_def)
  obtain fa where gr2: "game room2 = (NextTurn g2)\<lparr>FortAvailable := fa\<rparr>"
    using advance_game [of t2 "room1\<lparr>game := g2\<rparr>"] by (auto simp: room2_def)
  have nt: "CurrentPlayerIdx (NextTurn g2) = 1 \<and> GameOver (NextTurn g2) = GameOver g2"
    using ros(1,2) f2(2,3) pa(1,2) pb(1,2) pl2 by (intro NextTurn_two [of g2 qa qb]) simp_all
  have k: "Food (game room2) = Food g2" "Mileage (game room2) = Mileage g2"
    "TurnPhase (game room2) = PhaseMainMenu" "Heap (game room2) = Heap g"
    "Players (game room2) = [qa, qb]" "CurrentPlayerIdx (game room2) = 1"
    using NextTurn_keeps [of g2] f2 nt ros(1) by (simp_all add: gr2)
  have st2: "status room2 = StatusPlaying" using st by (simp add: room2_def room1_def)
  have cur2: "GetCurrentPlayer (game room2) = Some qb"
    using k(5,6) by (simp add: GetCurrentPlayer_def)
  have pl3: "player (game room2) = player g" using k(4) by (simp add: player_def fun_eq_iff)
  have c1: "currentPlayerID room1 = idA"
    using ros(1) f1(2,3) pa(3) pl1 by (simp add: currentPlayerID_def room1_def GetCurrentPlayer_def)
  have c2: "currentPlayerID room2 = idB \<and> turnHolderOK room2"
    using cur2 pl3 pb st2 by (simp add: currentPlayerID_def turnHolderOK_def)
  have d: "52 \<le> Food g2 - Food g1 \<and> Food g2 - Food g1 < 58
           \<and> 45 \<le> Mileage g2 - Mileage g1 \<and> Mileage g2 - Mileage g1 < 65"
    using ra rb f1(4,5) f2(6,7) by simp
  have r1: "game room1 = g1" by (simp add: room1_def)
  show ?thesis
    using f1(4,7,8) c1 c2 d k(1,2,3) r1 by (simp add: a1 a2)
qed


text \<open>
  Claim C6. In a scheduled room of two human players A and B that has just started
  (food 100, ammunition 50), A's hunt answers "Get ready to shoot", moves the phase to
  hunting, takes exactly 50 bullets, leaves the mileage and keeps the turn with A; A's
  shot after 250 ms has accuracy 0, in the tier of at most 2, adds at least 52 and less
  than 58 to the food and at least 45 and less than 65 to the mileage, returns the
  phase to the main menu and passes the turn to B.
\<close>

theorem hunt_scenario:
  assumes "c_ID cA \<noteq> c_ID cB" and "c_Name cA \<noteq> c_Name cB"
  shows
    "(let room0 = partyOfTwo t0 seed rid cA cB;
          (r1, room1, lb1) = HandleAction_locked t1 (c_ID cA) ''hunt'' room0 lb;
          (r2, room2, lb2) = HandleHuntShoot_locked t2 (c_ID cA) 250 room1 lb1
      in roomType room0 = RoomTypeScheduled \<and> status room0 = StatusPlaying
         \<and> Food (game room0) = 100 \<and> Bullets (game room0) = 50
         \<and> currentPlayerID room0 = c_ID cA
         \<and> r1 = GetReady \<and> TurnPhase (game room1) = PhaseHunting
         \<and> Bullets (game room1) = Bullets (game room0) - 50
         \<and> Mileage (game room1) = Mileage (game room0)
         \<and> currentPlayerID room1 = c_ID cA
         \<and> huntAccuracy 250 \<le> 2 \<and> r2 = Narrative
         \<and> 52 \<le> Food (game room2) - Food (game room1)
         \<and> Food (game room2) - Food (game room1) < 58
         \<and> 45 \<le> Mileage (game room2) - Mileage (game room1)
         \<and> Mileage (game room2) - Mileage (game room1) < 65
         \<and> TurnPhase (game room2) = PhaseMainMenu
         \<and> currentPlayerID room2 = c_ID cB \<and> turnHolderOK room2)"
proof -
  let ?room0 = "partyOfTwo t0 seed rid cA cB" and ?idA = "c_ID cA"
  note r0 = partyOfTwo_eval [OF assms, of t0 seed rid]
  have s0: "roomType ?room0 = RoomTypeScheduled" "status ?room0 = StatusPlaying"
    "Food (game ?room0) = 100" "Bullets (game ?room0) = 50"
    "currentPlayerID ?room0 = c_ID cA"
    by (simp_all add: r0 currentPlayerID_def GetCurrentPlayer_def player_def NewGameState_def)
  have s1: "Players (game ?room0) = [0, 1]" "(0::nat) \<noteq> 1" "CurrentPlayerIdx (game ?room0) = 0"
    "p_Alive (player (game ?room0) 0)" "p_Type (player (game ?room0) 0) = PlayerTypeHuman"
    "p_ID (player (game ?room0) 0) = c_ID cA"
    "p_Alive (player (game ?room0) 1)" "p_Type (player (game ?room0) 1) = PlayerTypeHuman"
    "p_ID (player (game ?room0) 1) = c_ID cB"
    "map_of (clients ?room0) (c_ID cA) = Some (cA\<lparr>c_RoomID := rid, c_Player := Some 0\<rparr>)"
    "c_Player (cA\<lparr>c_RoomID := rid, c_Player := Some 0\<rparr>) = Some 0"
    "c_ID (cA\<lparr>c_RoomID := rid, c_Player := Some 0\<rparr>) = c_ID cA"
    "0 \<le> Mileage (game ?room0)" "Mileage (game ?room0) + 65 \<le> TrailLength"
    "0 \<le> Food (game ?room0)" "\<not> GameOver (game ?room0)"
    by (simp_all add: r0 player_def NewGameState_def TrailLength_def)
  note st = hunt_scenario_steps [OF refl s0(2) s1(1-12) s0(4) s1(13-16), of t1 lb t2]
  have acc: "huntAccuracy 250 \<le> 2" by (simp add: huntAccuracy_250)
  show ?thesis
    using st s0 acc by (simp add: Let_def split_def)
qed

theorem hunt_scenario_witness:
  "c_ID (joining ''a'' ''Ann'') \<noteq> c_ID (joining ''b'' ''Bob'')
   \<and> c_Name (joining ''a'' ''Ann'') \<noteq> c_Name (joining ''b'' ''Bob'')
   \<and> Food (game (partyOfTwo 0 (\<lambda>_. 0) ''r1'' (joining ''a'' ''Ann'') (joining ''b'' ''Bob''))) = 100
   \<and> Bullets (game (partyOfTwo 0 (\<lambda>_. 0) ''r1'' (joining ''a'' ''Ann'') (joining ''b'' ''Bob''))) = 50
   \<and> currentPlayerID
        (fst (snd (HandleAction_locked 1 ''a'' ''hunt''
           (partyOfTwo 0 (\<lambda>_. 0) ''r1'' (joining ''a'' ''Ann'') (joining ''b'' ''Bob'')) []))) = ''a''
   \<and> currentPlayerID
        (fst (snd (HandleHuntShoot_locked 2 ''a'' 250
           (fst (snd (HandleAction_locked 1 ''a'' ''hunt''
              (partyOfTwo 0 (\<lambda>_. 0) ''r1'' (joining ''a'' ''Ann'') (joining ''b'' ''Bob'')) [])))
           (snd (snd (HandleAction_locked 1 ''a'' ''hunt''
              (partyOfTwo 0 (\<lambda>_. 0) ''r1'' (joining ''a'' ''Ann'') (joining ''b'' ''Bob'')) [])))))) = ''b''"
proof -
  have d: "c_ID (joining ''a'' ''Ann'') \<noteq> c_ID (joining ''b'' ''Bob'')"
    "c_Name (joining ''a'' ''Ann'') \<noteq> c_Name (joining ''b'' ''Bob'')"
    by (simp_all add: joining_def)
  have i: "c_ID (joining ''a'' ''Ann'') = ''a''" "c_ID (joining ''b'' ''Bob'') = ''b''"
    by (simp_all add: joining_def)
  from hunt_scenario [OF d, of 0 "\<lambda>_. 0" "''r1''" 1 "[]" 2] d show ?thesis
    by (simp add: Let_def split_def i)
qed

end
